theory Spec2Isabelle
  imports Complex_Main "HOL-Library.Product_Lexorder"
begin

section \<open>Data model\<close>

text \<open>
  The backend is an Express application over PostgreSQL. Every route handler is a
  sequence of SQL statements on the tables created in \<^verbatim>\<open>backend/config/database.js\<close>.
  The tables are lists of rows; a handler takes the authenticated user, the request and
  the database and returns the HTTP outcome together with the database it leaves behind.

  Conventions of the embedding:
  \<^item> nullable columns are \<open>option\<close>s; \<open>processed_at\<close> carries a default and a row whose
    \<open>processed_at\<close> is NULL fails every range comparison of the handlers below, so the
    column is a plain timestamp here;
  \<^item> timestamps are integers (seconds), amounts (\<open>DECIMAL(15,2)\<close>) and numeric rule
    thresholds are rationals, identifiers (\<open>SERIAL\<close>, \<open>INTEGER\<close>) are integers; an
    identifier, an amount or a limit that a request binds to a statement is taken to lie
    within the range of its SQL type, and strings hold no NUL character;
  \<^item> request bodies are records whose fields already have the JSON type the Joi schema
    asks for, an absent key is \<open>None\<close>; what the schemas check beyond the type (ranges,
    lengths, enumerations, unknown keys) is checked by the model;
  \<^item> values the handlers draw from the clock or the random generator (\<open>new Date()\<close>,
    the generated \<open>alert_id\<close> and \<open>case_number\<close>) are arguments;
  \<^item> columns that no handler below reads or constrains (\<open>details\<close>, \<open>score\<close>,
    \<open>customer_id\<close>, free-text descriptions of transactions) are left out of the rows;
  \<^item> audit logging and socket notifications write no table and are left out.
\<close>

record txn =
  t_id :: int
  from_account_id :: "int option"
  amount :: rat
  t_currency :: "string option"
  transaction_type :: string
  channel :: string
  location_country :: "string option"
  processed_at :: int

record conditions =
  minAmount :: "rat option"
  maxAmount :: "rat option"
  currency :: "string option"
  transactionCount :: "int option"
  timeWindow :: "string option"
  transactionTypes :: "string list option"
  channels :: "string list option"
  roundAmounts :: "bool option"
  blockedCountries :: "string list option"
  timeZoneMismatch :: "bool option"
  velocityThreshold :: "rat option"
  velocityWindow :: "string option"
  otherKeys :: "string list"

record rule =
  r_id :: int
  r_name :: string
  r_description :: "string option"
  rule_type :: string
  r_conditions :: conditions
  r_severity :: string
  is_active :: bool
  r_created_by :: int

record alert =
  a_id :: int
  alert_id :: string
  a_transaction_id :: "int option"
  a_rule_id :: "int option"
  alert_type :: string
  a_severity :: string
  a_status :: string
  a_assigned_to :: "int option"
  a_created_at :: int
  a_updated_at :: int

record case_row =
  c_id :: int
  case_number :: string
  c_title :: string
  c_description :: string
  case_type :: string
  c_priority :: string
  c_status :: string
  c_assigned_to :: "int option"
  c_created_by :: int
  estimated_loss :: "rat option"

record db =
  users :: "int list"
  transactions :: "txn list"
  detection_rules :: "rule list"
  alerts :: "alert list"
  cases :: "case_row list"
  case_alerts :: "(int \<times> int) list"
  detection_rules_id_seq :: int
  alerts_id_seq :: int
  cases_id_seq :: int

record user =
  u_id :: int
  username :: string
  role :: string

text \<open>
  The HTTP error responses: 401, 403, 400, 404, 409, the 400 of the rule deletion that
  carries \<open>alertCount\<close>, and 500. The text is the \<open>error\<close> field of the JSON body.
\<close>

datatype error =
    Unauthorized
  | Forbidden string
  | BadRequest string
  | NotFound string
  | Conflict string
  | RuleHasAlerts nat
  | ServerError string

text \<open>
  Errors raised by a statement: unique violation (23505), foreign key violation (23503),
  undefined column (42703), and a negative \<open>LIMIT\<close> (2201W).
\<close>

datatype pg_error = UniqueViolation | ForeignKeyViolation | UndefinedColumn | InvalidLimit

text \<open>
  \<^verbatim>\<open>errorHandler\<close> of \<^verbatim>\<open>backend/middleware/errorHandler.js\<close>, reached through
  \<^verbatim>\<open>asyncHandler\<close> by every error a handler does not catch itself.
\<close>

fun errorHandler :: "pg_error \<Rightarrow> error" where
  "errorHandler UniqueViolation = Conflict ''Resource already exists''"
| "errorHandler ForeignKeyViolation = BadRequest ''Referenced resource does not exist''"
| "errorHandler UndefinedColumn = ServerError ''Internal Server Error''"
| "errorHandler InvalidLimit = ServerError ''Internal Server Error''"

section \<open>Authorisation middleware\<close>

text \<open>\<^verbatim>\<open>authorize(allowedRoles)\<close>: 401 without a user, 403 when the role is not allowed.\<close>

definition authorize :: "string list \<Rightarrow> user option \<Rightarrow> error option" where
  "authorize allowedRoles u =
     (case u of
        None \<Rightarrow> Some Unauthorized
      | Some usr \<Rightarrow>
          if role usr \<notin> set allowedRoles
          then Some (Forbidden ''Access denied. Insufficient permissions.'')
          else None)"

section \<open>Rules: deletion\<close>

text \<open>
  \<^verbatim>\<open>router.delete('/:id')\<close> of the rules router. The path parameter is \<open>None\<close> when
  \<^verbatim>\<open>parseInt\<close> yields NaN.
\<close>

definition delete_rule :: "user option \<Rightarrow> int option \<Rightarrow> db \<Rightarrow> (error + string) \<times> db" where
  "delete_rule u rid d =
     (case authorize [''admin''] u of
        Some e \<Rightarrow> (Inl e, d)
      | None \<Rightarrow>
     (case rid of
        None \<Rightarrow> (Inl (BadRequest ''Invalid rule ID''), d)
      | Some ruleId \<Rightarrow>
          let ruleQuery = filter (\<lambda>r. r_id r = ruleId) (detection_rules d) in
          if length ruleQuery = 0 then (Inl (NotFound ''Rule not found''), d)
          else
            let alertCount = length (filter (\<lambda>a. a_rule_id a = Some ruleId) (alerts d)) in
            if alertCount > 0 then (Inl (RuleHasAlerts alertCount), d)
            else (Inr ''Detection rule deleted successfully'',
                  d\<lparr>detection_rules := filter (\<lambda>r. r_id r \<noteq> ruleId) (detection_rules d)\<rparr>)))"

text \<open>Every alert's rule reference resolves to a row of the rule catalog.\<close>

definition alert_rule_resolves :: "db \<Rightarrow> alert \<Rightarrow> bool" where
  "alert_rule_resolves d a =
     (case a_rule_id a of
        None \<Rightarrow> True
      | Some i \<Rightarrow> list_ex (\<lambda>r. r_id r = i) (detection_rules d))"

definition rule_refs_resolve :: "db \<Rightarrow> bool" where
  "rule_refs_resolve d =
     list_all (alert_rule_resolves d) (alerts d)"

section \<open>Rules: creation\<close>

text \<open>
  The body of \<^verbatim>\<open>POST /api/rules\<close>. \<open>name\<close>, \<open>ruleType\<close> and \<open>conditions\<close> are
  required by \<^verbatim>\<open>ruleSchema\<close>; \<open>severity\<close> and \<open>isActive\<close> have defaults.
\<close>

record rule_request =
  rq_name :: "string option"
  rq_description :: "string option"
  rq_ruleType :: "string option"
  rq_conditions :: "conditions option"
  rq_severity :: "string option"
  rq_isActive :: "bool option"

text \<open>\<^verbatim>\<open>Joi.string()\<close> refuses the empty string; \<open>min\<close>/\<open>max\<close>/\<open>length\<close> bound the length.\<close>

definition joi_string :: "nat \<Rightarrow> nat \<Rightarrow> string \<Rightarrow> bool" where
  "joi_string lo hi s = (s \<noteq> [] \<and> lo \<le> length s \<and> length s \<le> hi)"

text \<open>
  \<^verbatim>\<open>Joi.number()\<close> refuses a number outside the safe range of JavaScript, from
  \<open>-(2^53 - 1)\<close> to \<open>2^53 - 1\<close>; \<^verbatim>\<open>.integer()\<close> asks for a safe integer.
\<close>

definition joi_number :: "rat \<Rightarrow> bool" where
  "joi_number v = (- 9007199254740991 \<le> v \<and> v \<le> 9007199254740991)"

definition joi_integer :: "int \<Rightarrow> bool" where
  "joi_integer n = (- 9007199254740991 \<le> n \<and> n \<le> 9007199254740991)"

definition joi_optional :: "('a \<Rightarrow> bool) \<Rightarrow> 'a option \<Rightarrow> bool" where
  "joi_optional chk v = (case v of None \<Rightarrow> True | Some x \<Rightarrow> chk x)"

definition joi_required :: "('a \<Rightarrow> bool) \<Rightarrow> 'a option \<Rightarrow> bool" where
  "joi_required chk v = (case v of None \<Rightarrow> False | Some x \<Rightarrow> chk x)"

definition rule_types :: "string list" where
  "rule_types = [''amount'', ''frequency'', ''pattern'', ''location'', ''velocity'']"

definition severities :: "string list" where
  "severities = [''low'', ''medium'', ''high'', ''critical'']"

text \<open>
  The \<open>conditions\<close> object of \<^verbatim>\<open>ruleSchema\<close>: one flat object whose keys are all
  optional; a key outside the schema is refused (Joi's default for objects). The schema
  does not mention \<open>ruleType\<close>.
\<close>

definition conditions_schema :: "conditions \<Rightarrow> bool" where
  "conditions_schema c =
     (joi_optional (\<lambda>v. joi_number v \<and> 0 \<le> v) (minAmount c) \<and>
      joi_optional (\<lambda>v. joi_number v \<and> 0 \<le> v) (maxAmount c) \<and>
      joi_optional (\<lambda>s. s \<noteq> [] \<and> length s = 3) (currency c) \<and>
      joi_optional (\<lambda>n. joi_integer n \<and> 1 \<le> n) (transactionCount c) \<and>
      joi_optional (\<lambda>s. s \<in> set [''1h'', ''24h'', ''7d'', ''30d'']) (timeWindow c) \<and>
      joi_optional (list_all (\<lambda>s. s \<noteq> [])) (transactionTypes c) \<and>
      joi_optional (list_all (\<lambda>s. s \<noteq> [])) (channels c) \<and>
      joi_optional (\<lambda>b. True) (roundAmounts c) \<and>
      joi_optional (list_all (\<lambda>s. s \<noteq> [] \<and> length s = 2)) (blockedCountries c) \<and>
      joi_optional (\<lambda>b. True) (timeZoneMismatch c) \<and>
      joi_optional (\<lambda>v. joi_number v \<and> 0 \<le> v) (velocityThreshold c) \<and>
      joi_optional (\<lambda>s. s \<in> set [''1h'', ''24h'', ''7d'']) (velocityWindow c) \<and>
      otherKeys c = [])"

definition ruleSchema :: "rule_request \<Rightarrow> bool" where
  "ruleSchema rq =
     (joi_required (joi_string 3 100) (rq_name rq) \<and>
      joi_optional (joi_string 0 500) (rq_description rq) \<and>
      joi_required (\<lambda>t. t \<in> set rule_types) (rq_ruleType rq) \<and>
      joi_required conditions_schema (rq_conditions rq) \<and>
      joi_optional (\<lambda>s. s \<in> set severities) (rq_severity rq))"

text \<open>
  \<^verbatim>\<open>router.post('/')\<close> of the rules router. The inserted row takes its id from the
  sequence; \<open>created_by\<close> references \<open>users\<close>.
\<close>

definition create_rule :: "user option \<Rightarrow> rule_request \<Rightarrow> db \<Rightarrow> (error + rule) \<times> db" where
  "create_rule u rq d =
     (case authorize [''supervisor'', ''admin''] u of
        Some e \<Rightarrow> (Inl e, d)
      | None \<Rightarrow>
          if \<not> ruleSchema rq then (Inl (BadRequest ''Invalid rule data''), d)
          else
            let name = the (rq_name rq);
                existingRule = filter (\<lambda>r. r_name r = name) (detection_rules d) in
            if length existingRule > 0
            then (Inl (Conflict ''Rule with this name already exists''), d)
            else
              let newRule = \<lparr> r_id = detection_rules_id_seq d,
                              r_name = name,
                              r_description = rq_description rq,
                              rule_type = the (rq_ruleType rq),
                              r_conditions = the (rq_conditions rq),
                              r_severity = (case rq_severity rq of None \<Rightarrow> ''medium'' | Some s \<Rightarrow> s),
                              is_active = (case rq_isActive rq of None \<Rightarrow> True | Some b \<Rightarrow> b),
                              r_created_by = u_id (the u) \<rparr>;
                  d1 = d\<lparr>detection_rules_id_seq := detection_rules_id_seq d + 1\<rparr> in
              if u_id (the u) \<notin> set (users d)
              then (Inl (errorHandler ForeignKeyViolation), d1)
              else (Inr newRule, d1\<lparr>detection_rules := detection_rules d @ [newRule]\<rparr>))"

section \<open>Rules: testing against historical transactions\<close>

record test_request =
  startDate :: "int option"
  endDate :: "int option"
  limit :: "int option"

record test_result =
  tr_rule :: "int \<times> string \<times> string"
  testPeriod :: "int option \<times> int option"
  matches :: "(txn \<times> string) list"
  matchCount :: nat

text \<open>
  \<^verbatim>\<open>processed_at >= $1 AND processed_at <= $2\<close>; an absent date is bound to NULL and
  the comparison then selects no row.
\<close>

definition in_period :: "int option \<Rightarrow> int option \<Rightarrow> txn \<Rightarrow> bool" where
  "in_period s e t =
     (case s of
        None \<Rightarrow> False
      | Some a \<Rightarrow> (case e of None \<Rightarrow> False | Some b \<Rightarrow> a \<le> processed_at t \<and> processed_at t \<le> b))"

text \<open>JavaScript truthiness of a condition value, as in \<^verbatim>\<open>if (conditions.minAmount)\<close>.\<close>

definition truthy_num :: "rat option \<Rightarrow> bool" where
  "truthy_num v = (case v of None \<Rightarrow> False | Some x \<Rightarrow> x \<noteq> 0)"

definition truthy_str :: "string option \<Rightarrow> bool" where
  "truthy_str v = (case v of None \<Rightarrow> False | Some s \<Rightarrow> s \<noteq> [])"

definition truthy_bool :: "bool option \<Rightarrow> bool" where
  "truthy_bool v = (case v of None \<Rightarrow> False | Some b \<Rightarrow> b)"

text \<open>\<^verbatim>\<open>conditions.xs && conditions.xs.length > 0\<close>.\<close>

definition nonempty_array :: "string list option \<Rightarrow> bool" where
  "nonempty_array v = (case v of None \<Rightarrow> False | Some xs \<Rightarrow> length xs > 0)"

text \<open>SQL equality and \<^verbatim>\<open>= ANY(array)\<close> on a nullable column: NULL matches nothing.\<close>

definition sql_eq :: "'a option \<Rightarrow> 'a option \<Rightarrow> bool" where
  "sql_eq x y = (case x of None \<Rightarrow> False | Some a \<Rightarrow> (case y of None \<Rightarrow> False | Some b \<Rightarrow> a = b))"

definition sql_any :: "'a option \<Rightarrow> 'a list \<Rightarrow> bool" where
  "sql_any x ys = (case x of None \<Rightarrow> False | Some a \<Rightarrow> a \<in> set ys)"

text \<open>The \<open>%\<close> of PostgreSQL on \<open>numeric\<close>: the remainder of the truncating division.\<close>

definition pg_mod :: "rat \<Rightarrow> rat \<Rightarrow> rat" where
  "pg_mod a b =
     (let q = a / b; tq = (if 0 \<le> q then \<lfloor>q\<rfloor> else \<lceil>q\<rceil>)
      in a - b * of_int tq)"

text \<open>The statement built by \<^verbatim>\<open>case 'amount'\<close>, before \<open>ORDER BY\<close> and \<open>LIMIT\<close>.\<close>

definition amount_query :: "conditions \<Rightarrow> test_request \<Rightarrow> txn list \<Rightarrow> (txn \<times> string) list" where
  "amount_query c rq ts =
     map (\<lambda>t. (t, ''Amount threshold exceeded''))
       (filter (\<lambda>t. in_period (startDate rq) (endDate rq) t \<and>
                    (truthy_num (minAmount c) \<longrightarrow> the (minAmount c) \<le> amount t) \<and>
                    (truthy_num (maxAmount c) \<longrightarrow> amount t \<le> the (maxAmount c)) \<and>
                    (truthy_str (currency c) \<longrightarrow> sql_eq (t_currency t) (currency c))) ts)"

text \<open>
  The common table expression \<open>frequent_accounts\<close> of \<^verbatim>\<open>case 'frequency'\<close>: the
  transactions of the period grouped by \<open>from_account_id\<close> (NULL is a group of its own),
  the groups with at least \<open>$3\<close> rows kept.
\<close>

definition frequent_accounts ::
  "test_request \<Rightarrow> int \<Rightarrow> txn list \<Rightarrow> (int option \<times> nat \<times> string) list" where
  "frequent_accounts rq n ts =
     (let period = filter (in_period (startDate rq) (endDate rq)) ts in
      filter (\<lambda>(acc, txn_count, reason). n \<le> int txn_count)
        (map (\<lambda>acc. (acc, length (filter (\<lambda>t. from_account_id t = acc) period),
                      ''High frequency transactions''))
             (remdups (map from_account_id period))))"

text \<open>
  The statement built by \<^verbatim>\<open>case 'frequency'\<close>: the inner join of the transactions of the
  period with \<open>frequent_accounts\<close>; the third parameter is
  \<^verbatim>\<open>conditions.transactionCount || 10\<close>.
\<close>

definition frequency_threshold :: "conditions \<Rightarrow> int" where
  "frequency_threshold c =
     (case transactionCount c of None \<Rightarrow> 10 | Some n \<Rightarrow> if n = 0 then 10 else n)"

definition frequency_query :: "conditions \<Rightarrow> test_request \<Rightarrow> txn list \<Rightarrow> (txn \<times> string) list" where
  "frequency_query c rq ts =
     (let fas = frequent_accounts rq (frequency_threshold c) ts in
      concat (map (\<lambda>t. map (\<lambda>(acc, txn_count, reason). (t, reason))
                          (filter (\<lambda>(acc, txn_count, reason). sql_eq (from_account_id t) acc) fas))
                  (filter (in_period (startDate rq) (endDate rq)) ts)))"

definition pattern_query :: "conditions \<Rightarrow> test_request \<Rightarrow> txn list \<Rightarrow> (txn \<times> string) list" where
  "pattern_query c rq ts =
     map (\<lambda>t. (t, ''Pattern match detected''))
       (filter (\<lambda>t. in_period (startDate rq) (endDate rq) t \<and>
                    (nonempty_array (transactionTypes c) \<longrightarrow>
                       transaction_type t \<in> set (the (transactionTypes c))) \<and>
                    (nonempty_array (channels c) \<longrightarrow> channel t \<in> set (the (channels c))) \<and>
                    (truthy_bool (roundAmounts c) \<longrightarrow> pg_mod (amount t) 1000 = 0)) ts)"

definition location_query :: "conditions \<Rightarrow> test_request \<Rightarrow> txn list \<Rightarrow> (txn \<times> string) list" where
  "location_query c rq ts =
     map (\<lambda>t. (t, ''Suspicious location detected''))
       (filter (\<lambda>t. in_period (startDate rq) (endDate rq) t \<and>
                    (nonempty_array (blockedCountries c) \<longrightarrow>
                       sql_any (location_country t) (the (blockedCountries c)))) ts)"

text \<open>
  \<^verbatim>\<open>ORDER BY processed_at DESC LIMIT $n\<close>. The statement has no tie-breaker: the order
  of rows with equal \<open>processed_at\<close> is the executor's choice and may differ from one
  execution to the next. The choice is the argument \<open>tie\<close>, a ranking of the
  transactions: rows come out by descending \<open>processed_at\<close> and, among equal
  \<open>processed_at\<close>, by ascending rank. Every theorem below holds for every \<open>tie\<close>. A
  negative limit is refused by PostgreSQL.
\<close>

definition order_by :: "(txn \<Rightarrow> int) \<Rightarrow> (txn \<times> string) list \<Rightarrow> (txn \<times> string) list" where
  "order_by tie rows = sort_key (\<lambda>(t, reason). (- processed_at t, tie t)) rows"

definition order_limit ::
  "(txn \<Rightarrow> int) \<Rightarrow> int \<Rightarrow> (txn \<times> string) list \<Rightarrow> pg_error + (txn \<times> string) list" where
  "order_limit tie n rows =
     (if n < 0 then Inl InvalidLimit
      else Inr (take (nat n) (order_by tie rows)))"

text \<open>
  \<^verbatim>\<open>router.post('/:id/test')\<close>. The switch on \<open>rule_type\<close> selects the statement; its
  default branch answers 400. An error of the statement is caught by the handler itself
  and answered with 500. The handler issues no statement other than the two SELECTs.
\<close>

definition select_test_query ::
  "rule \<Rightarrow> test_request \<Rightarrow> txn list \<Rightarrow> ((txn \<times> string) list) option" where
  "select_test_query r rq ts =
     (if rule_type r = ''amount'' then Some (amount_query (r_conditions r) rq ts)
      else if rule_type r = ''frequency'' then Some (frequency_query (r_conditions r) rq ts)
      else if rule_type r = ''pattern'' then Some (pattern_query (r_conditions r) rq ts)
      else if rule_type r = ''location'' then Some (location_query (r_conditions r) rq ts)
      else None)"

definition test_rule ::
  "(txn \<Rightarrow> int) \<Rightarrow> user option \<Rightarrow> int option \<Rightarrow> test_request \<Rightarrow> db \<Rightarrow>
     (error + test_result) \<times> db" where
  "test_rule tie u rid rq d =
     (case authorize [''supervisor'', ''admin''] u of
        Some e \<Rightarrow> (Inl e, d)
      | None \<Rightarrow>
     (case rid of
        None \<Rightarrow> (Inl (BadRequest ''Invalid rule ID''), d)
      | Some ruleId \<Rightarrow>
     (case filter (\<lambda>r. r_id r = ruleId) (detection_rules d) of
        [] \<Rightarrow> (Inl (NotFound ''Rule not found''), d)
      | r # others \<Rightarrow>
     (case select_test_query r rq (transactions d) of
        None \<Rightarrow> (Inl (BadRequest ''Rule type not supported for testing''), d)
      | Some rows \<Rightarrow>
     (case order_limit tie (case limit rq of None \<Rightarrow> 100 | Some n \<Rightarrow> n) rows of
        Inl e \<Rightarrow> (Inl (ServerError ''Rule test failed''), d)
      | Inr result \<Rightarrow>
          (Inr \<lparr> tr_rule = (r_id r, r_name r, rule_type r),
                 testPeriod = (startDate rq, endDate rq),
                 matches = result,
                 matchCount = length result \<rparr>, d))))))"

section \<open>Alerts: creation and update\<close>

definition alert_statuses :: "string list" where
  "alert_statuses = [''new'', ''investigating'', ''escalated'', ''closed'', ''false_positive'']"

definition alert_types :: "string list" where
  "alert_types = [''rule_based'', ''ml_anomaly'', ''manual'']"

record create_alert_request =
  ca_transactionId :: "int option"
  ca_alertType :: "string option"
  ca_severity :: "string option"
  ca_description :: "string option"
  ca_ruleId :: "int option"



text \<open>
  The body of \<^verbatim>\<open>PUT /api/alerts/:id\<close>. \<open>assignedTo\<close> may be absent (\<open>None\<close>), null
  (\<open>Some None\<close>) or an integer.
\<close>

record update_alert_request =
  ua_status :: "string option"
  ua_assignedTo :: "int option option"
  ua_notes :: "string option"
  ua_resolution :: "string option"

definition updateAlertSchema :: "update_alert_request \<Rightarrow> bool" where
  "updateAlertSchema rq =
     (joi_optional (\<lambda>s. s \<in> set alert_statuses) (ua_status rq) \<and>
      joi_optional (joi_string 0 1000) (ua_notes rq) \<and>
      joi_optional (joi_string 0 500) (ua_resolution rq))"

text \<open>Truthiness of a nullable integer column, as in \<^verbatim>\<open>currentAlert.assigned_to && ...\<close>.\<close>

definition truthy_id :: "int option \<Rightarrow> bool" where
  "truthy_id v = (case v of None \<Rightarrow> False | Some i \<Rightarrow> i \<noteq> 0)"

text \<open>
  The \<open>SET\<close> list built from the keys of the validated body, applied to one row;
  \<open>updated_at\<close> is always set.
\<close>

definition set_alert_fields :: "update_alert_request \<Rightarrow> int \<Rightarrow> alert \<Rightarrow> alert" where
  "set_alert_fields rq now a =
     a\<lparr> a_status := (case ua_status rq of None \<Rightarrow> a_status a | Some s \<Rightarrow> s),
        a_assigned_to := (case ua_assignedTo rq of None \<Rightarrow> a_assigned_to a | Some v \<Rightarrow> v),
        a_updated_at := now \<rparr>"

text \<open>
  \<^verbatim>\<open>router.put('/:id')\<close> of the alerts router. The current status of the alert is
  selected but takes part in no decision. The keys \<open>notes\<close> and \<open>resolution\<close> become
  \<open>SET\<close> clauses on columns the table does not have, so the statement fails.
\<close>

definition update_alert ::
  "user option \<Rightarrow> int option \<Rightarrow> int \<Rightarrow> update_alert_request \<Rightarrow> db \<Rightarrow> (error + alert) \<times> db" where
  "update_alert u aid now rq d =
     (case authorize [''analyst'', ''supervisor'', ''admin''] u of
        Some e \<Rightarrow> (Inl e, d)
      | None \<Rightarrow>
     (case aid of
        None \<Rightarrow> (Inl (BadRequest ''Invalid alert ID''), d)
      | Some alertId \<Rightarrow>
          if \<not> updateAlertSchema rq then (Inl (BadRequest ''Invalid update data''), d)
          else
     (case filter (\<lambda>a. a_id a = alertId) (alerts d) of
        [] \<Rightarrow> (Inl (NotFound ''Alert not found''), d)
      | currentAlert # others \<Rightarrow>
          if role (the u) = ''analyst'' \<and> truthy_id (a_assigned_to currentAlert) \<and>
             a_assigned_to currentAlert \<noteq> Some (u_id (the u))
          then (Inl (Forbidden ''Access denied to this alert''), d)
          else if ua_status rq = None \<and> ua_assignedTo rq = None \<and>
                  ua_notes rq = None \<and> ua_resolution rq = None
          then (Inl (BadRequest ''No valid fields to update''), d)
          else if ua_notes rq \<noteq> None \<or> ua_resolution rq \<noteq> None
          then (Inl (errorHandler UndefinedColumn), d)
          else if (case ua_assignedTo rq of Some (Some i) \<Rightarrow> i \<notin> set (users d) | _ \<Rightarrow> False)
          then (Inl (errorHandler ForeignKeyViolation), d)
          else
            (Inr (set_alert_fields rq now currentAlert),
             d\<lparr>alerts := map (\<lambda>a. if a_id a = alertId then set_alert_fields rq now a else a)
                             (alerts d)\<rparr>))))"

section \<open>Cases: linking alerts\<close>

text \<open>
  The two statements both case routes issue for one alert:
  \<^verbatim>\<open>INSERT INTO case_alerts (case_id, alert_id)\<close>, which the unique constraint on the
  pair and the two foreign keys can refuse, and
  \<^verbatim>\<open>UPDATE alerts SET status = 'investigating', updated_at = CURRENT_TIMESTAMP WHERE id = $2\<close>,
  which has no condition on the current status.
\<close>

definition insert_case_alert :: "int \<Rightarrow> int \<Rightarrow> db \<Rightarrow> pg_error + db" where
  "insert_case_alert caseId alertId d =
     (if (caseId, alertId) \<in> set (case_alerts d) then Inl UniqueViolation
      else if \<not> list_ex (\<lambda>c. c_id c = caseId) (cases d) \<or>
              \<not> list_ex (\<lambda>a. a_id a = alertId) (alerts d)
      then Inl ForeignKeyViolation
      else Inr (d\<lparr>case_alerts := case_alerts d @ [(caseId, alertId)]\<rparr>))"

definition set_investigating :: "int \<Rightarrow> int \<Rightarrow> db \<Rightarrow> db" where
  "set_investigating now alertId d =
     d\<lparr>alerts := map (\<lambda>a. if a_id a = alertId
                            then a\<lparr>a_status := ''investigating'', a_updated_at := now\<rparr>
                            else a) (alerts d)\<rparr>"

text \<open>
  \<^verbatim>\<open>router.post('/:id/alerts')\<close> of the cases router. \<^verbatim>\<open>!alertId\<close> refuses an absent
  and a zero alert id. Only the unique violation is caught by the handler.
\<close>

definition link_alert ::
  "user option \<Rightarrow> int option \<Rightarrow> int option \<Rightarrow> int \<Rightarrow> db \<Rightarrow> (error + string) \<times> db" where
  "link_alert u cid aid now d =
     (case authorize [''analyst'', ''supervisor'', ''admin''] u of
        Some e \<Rightarrow> (Inl e, d)
      | None \<Rightarrow>
          if cid = None \<or> aid = None \<or> aid = Some 0
          then (Inl (BadRequest ''Invalid case ID or alert ID''), d)
          else
            let caseId = the cid; alertId = the aid in
     (case filter (\<lambda>c. c_id c = caseId) (cases d) of
        [] \<Rightarrow> (Inl (NotFound ''Case not found''), d)
      | caseData # others \<Rightarrow>
          if role (the u) = ''analyst'' \<and> c_assigned_to caseData \<noteq> Some (u_id (the u)) \<and>
             c_created_by caseData \<noteq> u_id (the u)
          then (Inl (Forbidden ''Access denied to this case''), d)
          else if length (filter (\<lambda>a. a_id a = alertId) (alerts d)) = 0
          then (Inl (NotFound ''Alert not found''), d)
          else
            (case insert_case_alert caseId alertId d of
               Inl e \<Rightarrow>
                 (if e = UniqueViolation
                  then (Inl (Conflict ''Alert is already associated with this case''), d)
                  else (Inl (errorHandler e), d))
             | Inr d1 \<Rightarrow>
                 (Inr ''Alert added to case successfully'', set_investigating now alertId d1))))"

section \<open>Cases: creation with alerts\<close>

record create_case_request =
  cc_title :: "string option"
  cc_description :: "string option"
  cc_caseType :: "string option"
  cc_priority :: "string option"
  cc_assignedTo :: "int option"
  cc_estimatedLoss :: "rat option"
  cc_alertIds :: "int list option"

definition createCaseSchema :: "create_case_request \<Rightarrow> bool" where
  "createCaseSchema rq =
     (joi_required (joi_string 5 200) (cc_title rq) \<and>
      joi_required (joi_string 0 2000) (cc_description rq) \<and>
      joi_required (\<lambda>t. t \<in> set [''fraud'', ''aml'', ''sanctions'', ''other'']) (cc_caseType rq) \<and>
      joi_optional (\<lambda>p. p \<in> set [''low'', ''medium'', ''high'', ''urgent'']) (cc_priority rq) \<and>
      joi_optional (\<lambda>v. 0 \<le> v) (cc_estimatedLoss rq))"

text \<open>
  The loop \<^verbatim>\<open>for (const alertId of alertIds)\<close> inside the transaction: the first
  statement that fails ends the loop with its error.
\<close>

fun link_alerts :: "int \<Rightarrow> int \<Rightarrow> int list \<Rightarrow> db \<Rightarrow> pg_error + db" where
  "link_alerts now caseId [] d = Inr d"
| "link_alerts now caseId (alertId # rest) d =
     (case insert_case_alert caseId alertId d of
        Inl e \<Rightarrow> Inl e
      | Inr d1 \<Rightarrow> link_alerts now caseId rest (set_investigating now alertId d1))"

text \<open>
  The \<open>INSERT INTO cases\<close>: \<open>case_number\<close> is unique, \<open>assigned_to\<close> and \<open>created_by\<close>
  reference \<open>users\<close>; \<open>status\<close> takes its default.
\<close>

definition insert_case :: "case_row \<Rightarrow> db \<Rightarrow> pg_error + db" where
  "insert_case c d =
     (if list_ex (\<lambda>x. case_number x = case_number c) (cases d) then Inl UniqueViolation
      else if (case c_assigned_to c of None \<Rightarrow> False | Some i \<Rightarrow> i \<notin> set (users d)) \<or>
              c_created_by c \<notin> set (users d)
      then Inl ForeignKeyViolation
      else Inr (d\<lparr>cases := cases d @ [c]\<rparr>))"

text \<open>
  \<^verbatim>\<open>router.post('/')\<close> of the cases router. Everything between \<open>BEGIN\<close> and \<open>COMMIT\<close>
  runs on one client; the \<open>catch\<close> block issues \<open>ROLLBACK\<close> and rethrows, so a failing
  statement leaves the tables as they were before \<open>BEGIN\<close>. A sequence is not rolled
  back. \<open>caseNumber\<close> is the generated \<^verbatim>\<open>CASE${year}${Date.now() tail}\<close>.
\<close>

definition create_case ::
  "user option \<Rightarrow> string \<Rightarrow> int \<Rightarrow> create_case_request \<Rightarrow> db \<Rightarrow> (error + case_row) \<times> db" where
  "create_case u caseNumber now rq d =
     (case authorize [''analyst'', ''supervisor'', ''admin''] u of
        Some e \<Rightarrow> (Inl e, d)
      | None \<Rightarrow>
          if \<not> createCaseSchema rq then (Inl (BadRequest ''Invalid case data''), d)
          else
            let newCase = \<lparr> c_id = cases_id_seq d,
                            case_number = caseNumber,
                            c_title = the (cc_title rq),
                            c_description = the (cc_description rq),
                            case_type = the (cc_caseType rq),
                            c_priority = (case cc_priority rq of None \<Rightarrow> ''medium'' | Some p \<Rightarrow> p),
                            c_status = ''open'',
                            c_assigned_to = cc_assignedTo rq,
                            c_created_by = u_id (the u),
                            estimated_loss = cc_estimatedLoss rq \<rparr>;
                d0 = d\<lparr>cases_id_seq := cases_id_seq d + 1\<rparr> in
            (case insert_case newCase d0 of
               Inl e \<Rightarrow> (Inl (errorHandler e), d0)
             | Inr d1 \<Rightarrow>
                 (case link_alerts now (c_id newCase)
                         (case cc_alertIds rq of None \<Rightarrow> [] | Some ids \<Rightarrow> ids) d1 of
                    Inl e \<Rightarrow> (Inl (errorHandler e), d0)
                  | Inr d2 \<Rightarrow> (Inr newCase, d2))))"

section \<open>The matching predicates as the specification words them\<close>

text \<open>
  Amount rule, following the specification: the amount lies within
  \<open>[minAmount, maxAmount]\<close>, both bounds inclusive, an absent bound unbounded; the
  currency equals the rule's currency when one is set; the transaction's type is in
  \<open>transactionTypes\<close> when one is set.
\<close>

definition spec_amount_match :: "conditions \<Rightarrow> txn \<Rightarrow> bool" where
  "spec_amount_match c t =
     ((case minAmount c of None \<Rightarrow> True | Some lo \<Rightarrow> lo \<le> amount t) \<and>
      (case maxAmount c of None \<Rightarrow> True | Some hi \<Rightarrow> amount t \<le> hi) \<and>
      (case currency c of None \<Rightarrow> True | Some cur \<Rightarrow> t_currency t = Some cur) \<and>
      (case transactionTypes c of None \<Rightarrow> True | Some tys \<Rightarrow> transaction_type t \<in> set tys))"

text \<open>The length of a rule's time window, in seconds.\<close>

definition window_seconds :: "string \<Rightarrow> int" where
  "window_seconds w =
     (if w = ''1h'' then 3600
      else if w = ''24h'' then 86400
      else if w = ''7d'' then 604800
      else 2592000)"

text \<open>
  Frequency rule, following the specification: the number of transactions that share the
  source account and were processed within the rule's own trailing window
  \<open>[now - window, now]\<close>, restricted to the rule's channels when set, is at least
  \<open>transactionCount\<close>.
\<close>

definition spec_frequency_count :: "conditions \<Rightarrow> int \<Rightarrow> txn list \<Rightarrow> txn \<Rightarrow> nat" where
  "spec_frequency_count c now ts t =
     length (filter (\<lambda>x. from_account_id x = from_account_id t \<and>
                         now - window_seconds (the (timeWindow c)) \<le> processed_at x \<and>
                         processed_at x \<le> now \<and>
                         (case channels c of None \<Rightarrow> True | Some chs \<Rightarrow> channel x \<in> set chs)) ts)"

definition spec_frequency_match :: "conditions \<Rightarrow> int \<Rightarrow> txn list \<Rightarrow> txn \<Rightarrow> bool" where
  "spec_frequency_match c now ts t =
     (the (transactionCount c) \<le> int (spec_frequency_count c now ts t))"


section \<open>A small database\<close>

definition ex_admin :: user where
  "ex_admin = \<lparr> u_id = 1, username = ''admin'', role = ''admin'' \<rparr>"

definition no_conditions :: conditions where
  "no_conditions =
     \<lparr> minAmount = None, maxAmount = None, currency = None, transactionCount = None,
       timeWindow = None, transactionTypes = None, channels = None, roundAmounts = None,
       blockedCountries = None, timeZoneMismatch = None, velocityThreshold = None,
       velocityWindow = None, otherKeys = [] \<rparr>"

definition ex_tx1 :: txn where
  "ex_tx1 = \<lparr> t_id = 1, from_account_id = Some 7, amount = 12000, t_currency = Some ''NZD'',
              transaction_type = ''deposit'', channel = ''branch'',
              location_country = Some ''NZ'', processed_at = 1000 \<rparr>"

definition ex_tx2 :: txn where
  "ex_tx2 = \<lparr> t_id = 2, from_account_id = Some 7, amount = 500, t_currency = Some ''NZD'',
              transaction_type = ''deposit'', channel = ''branch'',
              location_country = Some ''NZ'', processed_at = 91000 \<rparr>"

definition ex_tx3 :: txn where
  "ex_tx3 = \<lparr> t_id = 3, from_account_id = Some 8, amount = 15000, t_currency = Some ''NZD'',
              transaction_type = ''transfer'', channel = ''online'',
              location_country = Some ''NZ'', processed_at = 2000 \<rparr>"

text \<open>The template \<open>Large Cash Transaction\<close> of \<^verbatim>\<open>GET /api/rules/templates\<close>.\<close>

definition ex_amount_conditions :: conditions where
  "ex_amount_conditions =
     no_conditions\<lparr> minAmount := Some 10000, currency := Some ''NZD'',
                     transactionTypes := Some [''deposit'', ''withdrawal''] \<rparr>"

definition ex_rule1 :: rule where
  "ex_rule1 = \<lparr> r_id = 1, r_name = ''Large Cash Transaction'', r_description = None,
                rule_type = ''amount'', r_conditions = ex_amount_conditions,
                r_severity = ''high'', is_active = True, r_created_by = 1 \<rparr>"

definition ex_frequency_conditions :: conditions where
  "ex_frequency_conditions =
     no_conditions\<lparr> transactionCount := Some 2, timeWindow := Some ''24h'' \<rparr>"

definition ex_rule2 :: rule where
  "ex_rule2 = \<lparr> r_id = 2, r_name = ''Two in a day'', r_description = None,
                rule_type = ''frequency'', r_conditions = ex_frequency_conditions,
                r_severity = ''medium'', is_active = True, r_created_by = 1 \<rparr>"

definition ex_alert1 :: alert where
  "ex_alert1 = \<lparr> a_id = 1, alert_id = ''AL1'', a_transaction_id = Some 1, a_rule_id = Some 1,
                 alert_type = ''rule_based'', a_severity = ''high'', a_status = ''closed'',
                 a_assigned_to = None, a_created_at = 1500, a_updated_at = 1600 \<rparr>"

definition ex_case1 :: case_row where
  "ex_case1 = \<lparr> c_id = 1, case_number = ''CASE2024000001'', c_title = ''Cash deposits'',
                c_description = ''Large deposits'', case_type = ''aml'', c_priority = ''medium'',
                c_status = ''open'', c_assigned_to = None, c_created_by = 1,
                estimated_loss = None \<rparr>"

definition ex_db :: db where
  "ex_db = \<lparr> users = [1],
             transactions = [ex_tx1, ex_tx2, ex_tx3],
             detection_rules = [ex_rule1, ex_rule2],
             alerts = [ex_alert1],
             cases = [ex_case1],
             case_alerts = [],
             detection_rules_id_seq = 3,
             alerts_id_seq = 2,
             cases_id_seq = 2 \<rparr>"

definition ex_period :: test_request where
  "ex_period = \<lparr> startDate = Some 0, endDate = Some 100000, limit = Some 10 \<rparr>"

definition ex_alert_request :: create_alert_request where
  "ex_alert_request =
     \<lparr> ca_transactionId = Some 1, ca_alertType = Some ''rule_based'',
       ca_severity = Some ''high'', ca_description = Some ''Amount threshold exceeded'',
       ca_ruleId = Some 1 \<rparr>"

definition ex_case_request :: create_case_request where
  "ex_case_request =
     \<lparr> cc_title = Some ''Structuring'', cc_description = Some ''Two alerts'',
       cc_caseType = Some ''aml'', cc_priority = None, cc_assignedTo = None,
       cc_estimatedLoss = None, cc_alertIds = Some [1, 99] \<rparr>"

definition ex_location_request :: rule_request where
  "ex_location_request =
     \<lparr> rq_name = Some ''High Risk Country Transfer'', rq_description = None,
       rq_ruleType = Some ''location'', rq_conditions = Some no_conditions,
       rq_severity = Some ''high'', rq_isActive = None \<rparr>"

definition ex_reopen_request :: update_alert_request where
  "ex_reopen_request =
     \<lparr> ua_status = Some ''new'', ua_assignedTo = None, ua_notes = None, ua_resolution = None \<rparr>"

definition ex_bad_conditions :: conditions where
  "ex_bad_conditions = no_conditions\<lparr> minAmount := Some (-1) \<rparr>"

definition ex_reversed_period :: test_request where
  "ex_reversed_period = \<lparr> startDate = Some 100000, endDate = Some 0, limit = Some 10 \<rparr>"


section \<open>Auxiliary facts\<close>

lemmas ex_defs = ex_db_def ex_admin_def ex_tx1_def ex_tx2_def ex_tx3_def ex_rule1_def ex_rule2_def
  ex_alert1_def ex_case1_def ex_period_def ex_alert_request_def ex_case_request_def
  ex_location_request_def no_conditions_def ex_amount_conditions_def ex_frequency_conditions_def

lemma filter_empty_iff_list_ex: "(filter P xs = []) = (\<not> list_ex P xs)"
  by (induction xs) auto

lemma ex_admin_authorized:
  "authorize [''admin''] (Some ex_admin) = None"
  "authorize [''supervisor'', ''admin''] (Some ex_admin) = None"
  "authorize [''analyst'', ''supervisor'', ''admin''] (Some ex_admin) = None"
  by (simp_all add: authorize_def ex_admin_def)

section \<open>Deleting a rule\<close>

lemma delete_keeps_refs:
  assumes inv: "rule_refs_resolve d"
      and none: "\<not> list_ex (\<lambda>a. a_rule_id a = Some ruleId) (alerts d)"
  shows "rule_refs_resolve (d\<lparr>detection_rules := filter (\<lambda>r. r_id r \<noteq> ruleId) (detection_rules d)\<rparr>)"
  using inv none
  unfolding rule_refs_resolve_def alert_rule_resolves_def list_all_iff list_ex_iff
  by (simp split: option.splits) metis

text \<open>
  Claim C10. A rule that at least one alert references is not deleted: for an admin and
  an existing rule, the handler answers with the error that carries the number of
  associated alerts and leaves the database as it was; the rule is removed exactly when
  no alert references it; and whenever every alert's rule reference resolved before the
  call, every one resolves after it.
\<close>

theorem delete_rule_guard:
  assumes auth: "authorize [''admin''] u = None"
      and ex: "list_ex (\<lambda>r. r_id r = ruleId) (detection_rules d)"
  shows "(list_ex (\<lambda>a. a_rule_id a = Some ruleId) (alerts d) \<longrightarrow>
            delete_rule u (Some ruleId) d =
              (Inl (RuleHasAlerts (length (filter (\<lambda>a. a_rule_id a = Some ruleId) (alerts d)))), d))
       \<and> (\<not> list_ex (\<lambda>a. a_rule_id a = Some ruleId) (alerts d) \<longrightarrow>
            delete_rule u (Some ruleId) d =
              (Inr ''Detection rule deleted successfully'',
               d\<lparr>detection_rules := filter (\<lambda>r. r_id r \<noteq> ruleId) (detection_rules d)\<rparr>))
       \<and> (rule_refs_resolve d \<longrightarrow> rule_refs_resolve (snd (delete_rule u (Some ruleId) d)))"
proof -
  have found: "filter (\<lambda>r. r_id r = ruleId) (detection_rules d) \<noteq> []"
    using ex by (simp add: filter_empty_iff_list_ex)
  have cnt: "(0 < length (filter (\<lambda>a. a_rule_id a = Some ruleId) (alerts d)))
               = list_ex (\<lambda>a. a_rule_id a = Some ruleId) (alerts d)"
    by (simp add: filter_empty_iff_list_ex)
  have rejected: "list_ex (\<lambda>a. a_rule_id a = Some ruleId) (alerts d) \<Longrightarrow>
            delete_rule u (Some ruleId) d =
              (Inl (RuleHasAlerts (length (filter (\<lambda>a. a_rule_id a = Some ruleId) (alerts d)))), d)"
    using auth found cnt by (simp add: delete_rule_def Let_def)
  have deleted: "\<not> list_ex (\<lambda>a. a_rule_id a = Some ruleId) (alerts d) \<Longrightarrow>
            delete_rule u (Some ruleId) d =
              (Inr ''Detection rule deleted successfully'',
               d\<lparr>detection_rules := filter (\<lambda>r. r_id r \<noteq> ruleId) (detection_rules d)\<rparr>)"
    using auth found cnt by (simp add: delete_rule_def Let_def)
  have kept: "rule_refs_resolve d \<Longrightarrow> rule_refs_resolve (snd (delete_rule u (Some ruleId) d))"
  proof (cases "list_ex (\<lambda>a. a_rule_id a = Some ruleId) (alerts d)")
    case True
    assume "rule_refs_resolve d"
    then show ?thesis using rejected [OF True] by simp
  next
    case False
    assume "rule_refs_resolve d"
    then show ?thesis using deleted [OF False] delete_keeps_refs [OF _ False] by simp
  qed
  from rejected deleted kept show ?thesis by blast
qed

theorem delete_rule_guard_witness:
  "authorize [''admin''] (Some ex_admin) = None
   \<and> list_ex (\<lambda>r. r_id r = 1) (detection_rules ex_db)
   \<and> list_ex (\<lambda>r. r_id r = 2) (detection_rules ex_db)
   \<and> list_ex (\<lambda>a. a_rule_id a = Some 1) (alerts ex_db)
   \<and> \<not> list_ex (\<lambda>a. a_rule_id a = Some 2) (alerts ex_db)
   \<and> rule_refs_resolve ex_db
   \<and> delete_rule (Some ex_admin) (Some 1) ex_db = (Inl (RuleHasAlerts 1), ex_db)
   \<and> fst (delete_rule (Some ex_admin) (Some 2) ex_db) = Inr ''Detection rule deleted successfully''
   \<and> map r_id (detection_rules (snd (delete_rule (Some ex_admin) (Some 2) ex_db))) = [1]
   \<and> rule_refs_resolve (snd (delete_rule (Some ex_admin) (Some 2) ex_db))"
proof -
  have a: "authorize [''admin''] (Some ex_admin) = None"
    by (rule ex_admin_authorized)
  have r1: "list_ex (\<lambda>r. r_id r = 1) (detection_rules ex_db)"
    by (simp add: ex_defs)
  have r2: "list_ex (\<lambda>r. r_id r = 2) (detection_rules ex_db)"
    by (simp add: ex_defs)
  have a1: "list_ex (\<lambda>a. a_rule_id a = Some 1) (alerts ex_db)"
    by (simp add: ex_defs)
  have a2: "\<not> list_ex (\<lambda>a. a_rule_id a = Some 2) (alerts ex_db)"
    by (simp add: ex_defs)
  have inv: "rule_refs_resolve ex_db"
    by (simp add: rule_refs_resolve_def alert_rule_resolves_def ex_defs)
  have n1: "length (filter (\<lambda>a. a_rule_id a = Some 1) (alerts ex_db)) = 1"
    by (simp add: ex_defs)
  have f2: "map r_id (filter (\<lambda>r. r_id r \<noteq> 2) (detection_rules ex_db)) = [1]"
    by (simp add: ex_defs)
  from delete_rule_guard [OF a r1] a1 n1
  have c1: "delete_rule (Some ex_admin) (Some 1) ex_db = (Inl (RuleHasAlerts 1), ex_db)"
    by simp
  from delete_rule_guard [OF a r2] a2
  have e2: "delete_rule (Some ex_admin) (Some 2) ex_db =
              (Inr ''Detection rule deleted successfully'',
               ex_db\<lparr>detection_rules := filter (\<lambda>r. r_id r \<noteq> 2) (detection_rules ex_db)\<rparr>)"
    by blast
  from delete_rule_guard [OF a r2] inv
  have k2: "rule_refs_resolve (snd (delete_rule (Some ex_admin) (Some 2) ex_db))"
    by blast
  from e2 f2 k2
  have c2: "fst (delete_rule (Some ex_admin) (Some 2) ex_db) = Inr ''Detection rule deleted successfully''
     \<and> map r_id (detection_rules (snd (delete_rule (Some ex_admin) (Some 2) ex_db))) = [1]
     \<and> rule_refs_resolve (snd (delete_rule (Some ex_admin) (Some 2) ex_db))"
    by simp
  from a r1 r2 a1 a2 inv c1 c2 show ?thesis by blast
qed

lemmas handler_defs = authorize_def joi_required_def joi_optional_def joi_string_def
  alert_types_def severities_def alert_statuses_def rule_types_def

section \<open>Creating alerts\<close>




section \<open>Updating alerts\<close>

text \<open>
  Claim C2, as the handler has it. A rejected update leaves the database as it was. An
  accepted update sets the status of the alert to the status named in the request,
  whatever the current status is (so also when it is \<open>closed\<close>), and keeps the current
  status only when the request names none; the status of every other alert is kept.
\<close>

theorem update_alert_status_effect:
  assumes run: "update_alert u (Some alertId) now rq d = (res, d')"
  shows "(isl res \<longrightarrow> d' = d)
       \<and> (\<not> isl res \<longrightarrow>
            map a_status (alerts d') =
              map (\<lambda>a. if a_id a = alertId
                        then (case ua_status rq of None \<Rightarrow> a_status a | Some s \<Rightarrow> s)
                        else a_status a) (alerts d))"
  using run
  by (auto simp add: update_alert_def set_alert_fields_def
           split: option.splits if_splits list.splits)

text \<open>The theorem at the closed alert of the example database.\<close>

theorem update_alert_status_effect_witness:
  "map a_status (alerts ex_db) = [''closed'']
   \<and> \<not> isl (fst (update_alert (Some ex_admin) (Some 1) 3000 ex_reopen_request ex_db))
   \<and> map a_status (alerts (snd (update_alert (Some ex_admin) (Some 1) 3000 ex_reopen_request ex_db)))
       = [''new'']"
proof -
  have before: "map a_status (alerts ex_db) = [''closed'']"
    by (simp add: ex_defs)
  have ids: "map a_id (alerts ex_db) = [1]"
    by (simp add: ex_defs)
  have ok: "\<not> isl (fst (update_alert (Some ex_admin) (Some 1) 3000 ex_reopen_request ex_db))"
    by (simp add: update_alert_def updateAlertSchema_def handler_defs ex_defs
          ex_reopen_request_def truthy_id_def)
  have st: "ua_status ex_reopen_request = Some ''new''"
    by (simp add: ex_reopen_request_def)
  have al: "alerts ex_db = [ex_alert1]"
    by (simp add: ex_db_def)
  have fl: "a_id ex_alert1 = 1" by (simp add: ex_alert1_def)
  from update_alert_status_effect [OF surjective_pairing] ok st al fl
  have "map a_status (alerts (snd (update_alert (Some ex_admin) (Some 1) 3000 ex_reopen_request ex_db)))
       = [''new'']"
    by simp
  with before ok show ?thesis by blast
qed

text \<open>A closed alert leaves \<open>closed\<close>: an update escalates it.\<close>

theorem closed_alert_reopened_counterexample:
  "map a_status (alerts ex_db) = [''closed'']
   \<and> map a_status (alerts (snd (update_alert (Some ex_admin) (Some 1) 3000
                                   \<lparr> ua_status = Some ''escalated'', ua_assignedTo = None,
                                     ua_notes = None, ua_resolution = None \<rparr> ex_db)))
       = [''escalated'']"
  by (simp add: update_alert_def updateAlertSchema_def handler_defs ex_defs
        truthy_id_def set_alert_fields_def)

section \<open>Linking alerts to cases\<close>

lemma set_investigating_ids [simp]:
  "map a_id (alerts (set_investigating now i d)) = map a_id (alerts d)"
  by (simp add: set_investigating_def comp_def)

lemma set_investigating_status:
  "map a_status (alerts (set_investigating now i d)) =
     map (\<lambda>a. if a_id a = i then ''investigating'' else a_status a) (alerts d)"
  by (simp add: set_investigating_def comp_def)

lemma set_investigating_tables [simp]:
  "cases (set_investigating now i d) = cases d"
  "case_alerts (set_investigating now i d) = case_alerts d"
  "users (set_investigating now i d) = users d"
  by (simp_all add: set_investigating_def)

lemma insert_case_alert_Inr:
  "insert_case_alert c i d = Inr d1 \<Longrightarrow>
     alerts d1 = alerts d \<and> cases d1 = cases d \<and> case_alerts d1 = case_alerts d @ [(c, i)]"
  by (auto simp add: insert_case_alert_def split: if_splits)

lemma link_alerts_status:
  "link_alerts now c ids d = Inr d' \<Longrightarrow>
     map a_status (alerts d') =
       map (\<lambda>a. if a_id a \<in> set ids then ''investigating'' else a_status a) (alerts d)
     \<and> map a_id (alerts d') = map a_id (alerts d)"
proof (induction ids arbitrary: d)
  case Nil
  then show ?case by simp
next
  case (Cons i rest)
  from Cons.prems obtain d1 where ins: "insert_case_alert c i d = Inr d1"
    and rec: "link_alerts now c rest (set_investigating now i d1) = Inr d'"
    by (auto split: sum.splits)
  have same: "alerts d1 = alerts d"
    using insert_case_alert_Inr [OF ins] by simp
  from Cons.IH [OF rec]
  have st: "map a_status (alerts d') =
          map (\<lambda>a. if a_id a \<in> set rest then ''investigating'' else a_status a)
              (alerts (set_investigating now i d1))"
    and ids: "map a_id (alerts d') = map a_id (alerts (set_investigating now i d1))"
    by simp_all
  have "map (\<lambda>a. if a_id a \<in> set rest then ''investigating'' else a_status a)
              (alerts (set_investigating now i d1)) =
        map (\<lambda>a. if a_id a \<in> set (i # rest) then ''investigating'' else a_status a) (alerts d)"
    by (simp add: set_investigating_def same comp_def)
  with st ids same show ?case
    by (simp add: set_investigating_def comp_def)
qed

text \<open>
  Claim C3, as the handlers have it. Linking an existing alert to an existing case the
  caller may access, when the pair is not linked yet, succeeds, records the link and
  sets the alert's status to \<open>investigating\<close> whatever its current status is; the
  status of every other alert is kept. The loop of the case creation does the same for
  every alert id of its list.
\<close>

theorem link_alert_sets_investigating:
  assumes auth: "authorize [''analyst'', ''supervisor'', ''admin''] u = None"
      and cs: "filter (\<lambda>c. c_id c = caseId) (cases d) = caseData # others"
      and perm: "role (the u) \<noteq> ''analyst'' \<or> c_assigned_to caseData = Some (u_id (the u)) \<or>
                 c_created_by caseData = u_id (the u)"
      and al: "list_ex (\<lambda>a. a_id a = alertId) (alerts d)"
      and nz: "alertId \<noteq> 0"
      and fresh: "(caseId, alertId) \<notin> set (case_alerts d)"
  shows "fst (link_alert u (Some caseId) (Some alertId) now d) = Inr ''Alert added to case successfully''
       \<and> case_alerts (snd (link_alert u (Some caseId) (Some alertId) now d)) =
           case_alerts d @ [(caseId, alertId)]
       \<and> map a_status (alerts (snd (link_alert u (Some caseId) (Some alertId) now d))) =
           map (\<lambda>a. if a_id a = alertId then ''investigating'' else a_status a) (alerts d)
       \<and> (link_alerts now caseId ids d = Inr d' \<longrightarrow>
             map a_status (alerts d') =
               map (\<lambda>a. if a_id a \<in> set ids then ''investigating'' else a_status a) (alerts d))"
proof -
  have found: "filter (\<lambda>a. a_id a = alertId) (alerts d) \<noteq> []"
    using al by (simp add: filter_empty_iff_list_ex)
  have "list_ex (\<lambda>c. c_id c = caseId) (cases d)"
    using cs by (metis filter_empty_iff_list_ex list.distinct(1))
  then have ins: "insert_case_alert caseId alertId d =
                    Inr (d\<lparr>case_alerts := case_alerts d @ [(caseId, alertId)]\<rparr>)"
    using al fresh by (simp add: insert_case_alert_def)
  have run: "link_alert u (Some caseId) (Some alertId) now d =
               (Inr ''Alert added to case successfully'',
                set_investigating now alertId (d\<lparr>case_alerts := case_alerts d @ [(caseId, alertId)]\<rparr>))"
    using auth cs perm found nz ins by (auto simp add: link_alert_def Let_def)
  have st: "map a_status (alerts (snd (link_alert u (Some caseId) (Some alertId) now d))) =
           map (\<lambda>a. if a_id a = alertId then ''investigating'' else a_status a) (alerts d)"
    by (simp add: run set_investigating_status)
  have loop: "link_alerts now caseId ids d = Inr d' \<longrightarrow>
             map a_status (alerts d') =
               map (\<lambda>a. if a_id a \<in> set ids then ''investigating'' else a_status a) (alerts d)"
    using link_alerts_status by blast
  from run st loop show ?thesis by simp
qed

text \<open>The theorem at the closed alert and the open case of the example database.\<close>

theorem link_alert_sets_investigating_witness:
  "authorize [''analyst'', ''supervisor'', ''admin''] (Some ex_admin) = None
   \<and> filter (\<lambda>c. c_id c = 1) (cases ex_db) = ex_case1 # []
   \<and> list_ex (\<lambda>a. a_id a = 1) (alerts ex_db)
   \<and> (1, 1) \<notin> set (case_alerts ex_db)
   \<and> map a_status (alerts ex_db) = [''closed'']
   \<and> fst (link_alert (Some ex_admin) (Some 1) (Some 1) 3000 ex_db) = Inr ''Alert added to case successfully''
   \<and> case_alerts (snd (link_alert (Some ex_admin) (Some 1) (Some 1) 3000 ex_db)) = [(1, 1)]
   \<and> map a_status (alerts (snd (link_alert (Some ex_admin) (Some 1) (Some 1) 3000 ex_db))) = [''investigating'']
   \<and> link_alerts 3000 1 [1] ex_db =
       Inr (set_investigating 3000 1 (ex_db\<lparr>case_alerts := [(1, 1)]\<rparr>))
   \<and> map a_status (alerts (set_investigating 3000 1 (ex_db\<lparr>case_alerts := [(1, 1)]\<rparr>)))
       = [''investigating'']"
proof -
  have auth: "authorize [''analyst'', ''supervisor'', ''admin''] (Some ex_admin) = None"
    by (rule ex_admin_authorized)
  have cs: "filter (\<lambda>c. c_id c = 1) (cases ex_db) = ex_case1 # []"
    by (simp add: ex_db_def ex_case1_def)
  have perm: "role (the (Some ex_admin)) \<noteq> ''analyst'' \<or>
              c_assigned_to ex_case1 = Some (u_id (the (Some ex_admin))) \<or>
              c_created_by ex_case1 = u_id (the (Some ex_admin))"
    by (simp add: ex_admin_def)
  have al: "list_ex (\<lambda>a. a_id a = 1) (alerts ex_db)"
    by (simp add: ex_defs)
  have nz: "(1::int) \<noteq> 0" by simp
  have fresh: "(1, 1) \<notin> set (case_alerts ex_db)"
    by (simp add: ex_defs)
  have before: "map a_status (alerts ex_db) = [''closed'']"
    by (simp add: ex_defs)
  have ids: "alerts ex_db = [ex_alert1]" "a_id ex_alert1 = 1" "case_alerts ex_db = []"
    by (simp_all add: ex_defs)
  have loop: "link_alerts 3000 1 [1] ex_db =
       Inr (set_investigating 3000 1 (ex_db\<lparr>case_alerts := [(1, 1)]\<rparr>))"
    by (simp add: insert_case_alert_def ex_defs)
  from link_alert_sets_investigating [OF auth cs perm al nz fresh, of 3000 "[1]"
         "set_investigating 3000 1 (ex_db\<lparr>case_alerts := [(1, 1)]\<rparr>)"] loop ids
  have "map a_status (alerts (set_investigating 3000 1 (ex_db\<lparr>case_alerts := [(1, 1)]\<rparr>)))
       = [''investigating'']"
    by simp
  moreover
  from link_alert_sets_investigating [OF auth cs perm al nz fresh, of 3000] ids
  have "fst (link_alert (Some ex_admin) (Some 1) (Some 1) 3000 ex_db) = Inr ''Alert added to case successfully''
   \<and> case_alerts (snd (link_alert (Some ex_admin) (Some 1) (Some 1) 3000 ex_db)) = [(1, 1)]
   \<and> map a_status (alerts (snd (link_alert (Some ex_admin) (Some 1) (Some 1) 3000 ex_db))) = [''investigating'']"
    by simp
  ultimately show ?thesis using auth cs al fresh before loop by blast
qed

text \<open>Linking the closed alert changes its status to \<open>investigating\<close>.\<close>

theorem link_closed_alert_counterexample:
  "map a_status (alerts ex_db) = [''closed'']
   \<and> link_alert (Some ex_admin) (Some 1) (Some 1) 3000 ex_db =
       (Inr ''Alert added to case successfully'',
        ex_db\<lparr> case_alerts := [(1, 1)],
                alerts := [ex_alert1\<lparr>a_status := ''investigating'', a_updated_at := 3000\<rparr>] \<rparr>)"
  by (simp add: link_alert_def insert_case_alert_def set_investigating_def handler_defs ex_defs)


section \<open>Creating a case with alerts\<close>

lemma list_ex_a_id: "list_ex (\<lambda>a. a_id a = i) as = (i \<in> set (map a_id as))"
  by (auto simp add: list_ex_iff)

lemma link_alerts_unresolved:
  "list_ex (\<lambda>i. i \<notin> set (map a_id (alerts d))) ids \<Longrightarrow> isl (link_alerts now c ids d)"
proof (induction ids arbitrary: d)
  case Nil
  then show ?case by simp
next
  case (Cons i rest)
  show ?case
  proof (cases "insert_case_alert c i d")
    case (Inl e)
    then show ?thesis by simp
  next
    case (Inr d1)
    then have same: "alerts d1 = alerts d"
      using insert_case_alert_Inr by blast
    from Inr have "i \<in> set (map a_id (alerts d))"
      by (auto simp add: insert_case_alert_def list_ex_iff split: if_splits)
    with Cons.prems have "list_ex (\<lambda>i. i \<notin> set (map a_id (alerts d))) rest"
      by simp
    then have "list_ex (\<lambda>j. j \<notin> set (map a_id (alerts (set_investigating now i d1)))) rest"
      by (simp add: same)
    from Cons.IH [OF this] Inr show ?thesis by simp
  qed
qed

text \<open>
  Claim C4, as the handler has it. When some alert id of the request's list does not
  resolve to an alert, the case creation fails as a whole: the handler answers with an
  error, and the tables \<open>cases\<close>, \<open>case_alerts\<close> and \<open>alerts\<close> are as they were before
  the call, so no case is created, no alert is linked and no status is advanced.
\<close>

theorem create_case_all_or_nothing:
  assumes ids: "cc_alertIds rq = Some ids"
      and missing: "list_ex (\<lambda>i. \<not> list_ex (\<lambda>a. a_id a = i) (alerts d)) ids"
  shows "isl (fst (create_case u caseNumber now rq d))
       \<and> cases (snd (create_case u caseNumber now rq d)) = cases d
       \<and> case_alerts (snd (create_case u caseNumber now rq d)) = case_alerts d
       \<and> alerts (snd (create_case u caseNumber now rq d)) = alerts d"
proof -
  have m: "list_ex (\<lambda>i. i \<notin> set (map a_id (alerts d))) ids"
    using missing by (simp add: list_ex_a_id)
  let ?d0 = "d\<lparr>cases_id_seq := cases_id_seq d + 1\<rparr>"
  show ?thesis
  proof (cases "authorize [''analyst'', ''supervisor'', ''admin''] u")
    case (Some e)
    then show ?thesis by (simp add: create_case_def)
  next
    case None
    show ?thesis
    proof (cases "createCaseSchema rq")
      case False
      with None show ?thesis by (simp add: create_case_def)
    next
      case True
      let ?c = "\<lparr> c_id = cases_id_seq d, case_number = caseNumber,
                   c_title = the (cc_title rq), c_description = the (cc_description rq),
                   case_type = the (cc_caseType rq),
                   c_priority = (case cc_priority rq of None \<Rightarrow> ''medium'' | Some p \<Rightarrow> p),
                   c_status = ''open'', c_assigned_to = cc_assignedTo rq,
                   c_created_by = u_id (the u), estimated_loss = cc_estimatedLoss rq \<rparr>"
      show ?thesis
      proof (cases "insert_case ?c ?d0")
        case (Inl e)
        with None True show ?thesis by (simp add: create_case_def Let_def)
      next
        case (Inr d1)
        then have "alerts d1 = alerts d"
          by (auto simp add: insert_case_def split: if_splits)
        with m have "isl (link_alerts now (cases_id_seq d) ids d1)"
          by (simp add: link_alerts_unresolved)
        then obtain e where "link_alerts now (cases_id_seq d) ids d1 = Inl e"
          by (cases "link_alerts now (cases_id_seq d) ids d1") simp_all
        with None True Inr ids show ?thesis by (simp add: create_case_def Let_def)
      qed
    qed
  qed
qed

text \<open>The theorem at a request that names the existing alert 1 and the missing alert 99.\<close>

theorem create_case_all_or_nothing_witness:
  "cc_alertIds ex_case_request = Some [1, 99]
   \<and> list_ex (\<lambda>i. \<not> list_ex (\<lambda>a. a_id a = i) (alerts ex_db)) [1, 99]
   \<and> isl (fst (create_case (Some ex_admin) ''CASE2024000002'' 3000 ex_case_request ex_db))
   \<and> cases (snd (create_case (Some ex_admin) ''CASE2024000002'' 3000 ex_case_request ex_db)) = [ex_case1]
   \<and> case_alerts (snd (create_case (Some ex_admin) ''CASE2024000002'' 3000 ex_case_request ex_db)) = []
   \<and> alerts (snd (create_case (Some ex_admin) ''CASE2024000002'' 3000 ex_case_request ex_db)) = [ex_alert1]"
proof -
  have ids: "cc_alertIds ex_case_request = Some [1, 99]"
    by (simp add: ex_case_request_def)
  have missing: "list_ex (\<lambda>i. \<not> list_ex (\<lambda>a. a_id a = i) (alerts ex_db)) [1, 99]"
    by (simp add: ex_defs)
  have tabs: "cases ex_db = [ex_case1]" "case_alerts ex_db = []" "alerts ex_db = [ex_alert1]"
    by (simp_all add: ex_db_def)
  from create_case_all_or_nothing [OF ids missing, of "Some ex_admin" "''CASE2024000002''" 3000] tabs
  have "isl (fst (create_case (Some ex_admin) ''CASE2024000002'' 3000 ex_case_request ex_db))
   \<and> cases (snd (create_case (Some ex_admin) ''CASE2024000002'' 3000 ex_case_request ex_db)) = [ex_case1]
   \<and> case_alerts (snd (create_case (Some ex_admin) ''CASE2024000002'' 3000 ex_case_request ex_db)) = []
   \<and> alerts (snd (create_case (Some ex_admin) ''CASE2024000002'' 3000 ex_case_request ex_db)) = [ex_alert1]"
    by simp
  with ids missing show ?thesis by blast
qed

text \<open>
  Alert 1 resolves and alert 99 does not: the answer is the foreign key error, and only
  the sequence of case ids has moved.
\<close>

theorem create_case_partial_counterexample:
  "list_ex (\<lambda>a. a_id a = 1) (alerts ex_db) \<and> \<not> list_ex (\<lambda>a. a_id a = 99) (alerts ex_db)
   \<and> create_case (Some ex_admin) ''CASE2024000002'' 3000 ex_case_request ex_db =
       (Inl (BadRequest ''Referenced resource does not exist''), ex_db\<lparr>cases_id_seq := 3\<rparr>)"
  by (simp add: create_case_def createCaseSchema_def insert_case_def insert_case_alert_def
        set_investigating_def handler_defs Let_def ex_defs)

section \<open>Creating rules\<close>

text \<open>
  Claim C5, as the handler has it. For a supervisor or admin: the verdict of the request
  schema does not depend on the declared rule type; a condition set that violates the
  one shared schema (a present field outside its range or an unknown key) is rejected
  with \<open>Invalid rule data\<close> and nothing is stored; a request that passes the schema,
  with a fresh name, is stored with its conditions as given and is active unless
  \<open>isActive\<close> is false. Nothing requires the fields of the declared type to be present.
\<close>

theorem create_rule_schema_untyped:
  assumes auth: "authorize [''supervisor'', ''admin''] u = None"
  shows "(ty \<in> set rule_types \<and> ty' \<in> set rule_types \<longrightarrow>
            ruleSchema (rq\<lparr>rq_ruleType := Some ty\<rparr>) = ruleSchema (rq\<lparr>rq_ruleType := Some ty'\<rparr>))
       \<and> (rq_conditions rq = Some c \<and> \<not> conditions_schema c \<longrightarrow>
            create_rule u rq d = (Inl (BadRequest ''Invalid rule data''), d))
       \<and> (ruleSchema rq \<and> \<not> list_ex (\<lambda>r. r_name r = the (rq_name rq)) (detection_rules d) \<and>
          u_id (the u) \<in> set (users d) \<longrightarrow>
            (\<exists>r. create_rule u rq d =
                    (Inr r, d\<lparr>detection_rules_id_seq := detection_rules_id_seq d + 1,
                              detection_rules := detection_rules d @ [r]\<rparr>)
                 \<and> Some (rule_type r) = rq_ruleType rq
                 \<and> Some (r_conditions r) = rq_conditions rq
                 \<and> is_active r = (rq_isActive rq \<noteq> Some False)))"
proof -
  have indep: "ty \<in> set rule_types \<and> ty' \<in> set rule_types \<longrightarrow>
            ruleSchema (rq\<lparr>rq_ruleType := Some ty\<rparr>) = ruleSchema (rq\<lparr>rq_ruleType := Some ty'\<rparr>)"
    by (simp add: ruleSchema_def joi_required_def)
  have rejected: "rq_conditions rq = Some c \<and> \<not> conditions_schema c \<longrightarrow>
            create_rule u rq d = (Inl (BadRequest ''Invalid rule data''), d)"
    using auth by (simp add: create_rule_def ruleSchema_def joi_required_def)
  have stored: "ruleSchema rq \<and> \<not> list_ex (\<lambda>r. r_name r = the (rq_name rq)) (detection_rules d) \<and>
          u_id (the u) \<in> set (users d) \<longrightarrow>
            (\<exists>r. create_rule u rq d =
                    (Inr r, d\<lparr>detection_rules_id_seq := detection_rules_id_seq d + 1,
                              detection_rules := detection_rules d @ [r]\<rparr>)
                 \<and> Some (rule_type r) = rq_ruleType rq
                 \<and> Some (r_conditions r) = rq_conditions rq
                 \<and> is_active r = (rq_isActive rq \<noteq> Some False))"
  proof (intro impI, elim conjE)
    assume valid: "ruleSchema rq"
       and fresh: "\<not> list_ex (\<lambda>r. r_name r = the (rq_name rq)) (detection_rules d)"
       and usr: "u_id (the u) \<in> set (users d)"
    have none: "filter (\<lambda>r. r_name r = the (rq_name rq)) (detection_rules d) = []"
      using fresh by (simp add: filter_empty_iff_list_ex)
    have ty: "Some (the (rq_ruleType rq)) = rq_ruleType rq"
      using valid by (simp add: ruleSchema_def joi_required_def split: option.splits)
    have cs: "Some (the (rq_conditions rq)) = rq_conditions rq"
      using valid by (simp add: ruleSchema_def joi_required_def split: option.splits)
    have act: "(case rq_isActive rq of None \<Rightarrow> True | Some b \<Rightarrow> b) = (rq_isActive rq \<noteq> Some False)"
      by (simp split: option.splits)
    show "\<exists>r. create_rule u rq d =
                    (Inr r, d\<lparr>detection_rules_id_seq := detection_rules_id_seq d + 1,
                              detection_rules := detection_rules d @ [r]\<rparr>)
                 \<and> Some (rule_type r) = rq_ruleType rq
                 \<and> Some (r_conditions r) = rq_conditions rq
                 \<and> is_active r = (rq_isActive rq \<noteq> Some False)"
      using auth valid none usr ty cs act
      by (simp add: create_rule_def Let_def)
  qed
  from indep rejected stored show ?thesis by blast
qed

text \<open>
  The theorem at a Location rule whose condition set is empty (accepted, as it is under
  the type \<open>amount\<close>) and at a condition set with a negative \<open>minAmount\<close> (rejected).
\<close>

theorem create_rule_schema_untyped_witness:
  "authorize [''supervisor'', ''admin''] (Some ex_admin) = None
   \<and> ''location'' \<in> set rule_types \<and> ''amount'' \<in> set rule_types
   \<and> ruleSchema ex_location_request
   \<and> ruleSchema (ex_location_request\<lparr>rq_ruleType := Some ''amount''\<rparr>)
   \<and> \<not> conditions_schema ex_bad_conditions
   \<and> create_rule (Some ex_admin) (ex_location_request\<lparr>rq_conditions := Some ex_bad_conditions\<rparr>) ex_db
       = (Inl (BadRequest ''Invalid rule data''), ex_db)
   \<and> \<not> list_ex (\<lambda>r. r_name r = the (rq_name ex_location_request)) (detection_rules ex_db)
   \<and> u_id (the (Some ex_admin)) \<in> set (users ex_db)
   \<and> (\<exists>r. create_rule (Some ex_admin) ex_location_request ex_db =
              (Inr r, ex_db\<lparr>detection_rules_id_seq := detection_rules_id_seq ex_db + 1,
                             detection_rules := detection_rules ex_db @ [r]\<rparr>)
           \<and> Some (rule_type r) = Some ''location''
           \<and> Some (r_conditions r) = Some no_conditions
           \<and> is_active r)"
proof -
  have auth: "authorize [''supervisor'', ''admin''] (Some ex_admin) = None"
    by (rule ex_admin_authorized)
  have tys: "''location'' \<in> set rule_types" "''amount'' \<in> set rule_types"
    by (simp_all add: rule_types_def)
  have valid: "ruleSchema ex_location_request"
    by (simp add: ruleSchema_def conditions_schema_def handler_defs ex_location_request_def
          no_conditions_def)
  have same: "ex_location_request\<lparr>rq_ruleType := Some ''location''\<rparr> = ex_location_request"
    by (simp add: ex_location_request_def)
  from create_rule_schema_untyped [where u = "Some ex_admin" and ty = "''location''"
         and ty' = "''amount''" and rq = ex_location_request, OF auth] tys valid same
  have valid': "ruleSchema (ex_location_request\<lparr>rq_ruleType := Some ''amount''\<rparr>)"
    by simp
  have bad: "\<not> conditions_schema ex_bad_conditions"
    by (simp add: conditions_schema_def joi_optional_def ex_bad_conditions_def no_conditions_def)
  have sel: "rq_conditions (ex_location_request\<lparr>rq_conditions := Some ex_bad_conditions\<rparr>)
               = Some ex_bad_conditions"
    by simp
  from create_rule_schema_untyped [where u = "Some ex_admin"
         and rq = "ex_location_request\<lparr>rq_conditions := Some ex_bad_conditions\<rparr>"
         and c = ex_bad_conditions and d = ex_db, OF auth]
       sel bad
  have rej: "create_rule (Some ex_admin) (ex_location_request\<lparr>rq_conditions := Some ex_bad_conditions\<rparr>) ex_db
       = (Inl (BadRequest ''Invalid rule data''), ex_db)"
    by blast
  have fresh: "\<not> list_ex (\<lambda>r. r_name r = the (rq_name ex_location_request)) (detection_rules ex_db)"
    by (simp add: ex_defs)
  have usr: "u_id (the (Some ex_admin)) \<in> set (users ex_db)"
    by (simp add: ex_defs)
  have req: "rq_ruleType ex_location_request = Some ''location''"
    "rq_conditions ex_location_request = Some no_conditions"
    "rq_isActive ex_location_request = None"
    by (simp_all add: ex_location_request_def)
  from create_rule_schema_untyped [where u = "Some ex_admin" and rq = ex_location_request
         and d = ex_db, OF auth] valid fresh usr
  have "\<exists>r. create_rule (Some ex_admin) ex_location_request ex_db =
              (Inr r, ex_db\<lparr>detection_rules_id_seq := detection_rules_id_seq ex_db + 1,
                             detection_rules := detection_rules ex_db @ [r]\<rparr>)
           \<and> Some (rule_type r) = rq_ruleType ex_location_request
           \<and> Some (r_conditions r) = rq_conditions ex_location_request
           \<and> is_active r = (rq_isActive ex_location_request \<noteq> Some False)"
    by blast
  then have acc: "\<exists>r. create_rule (Some ex_admin) ex_location_request ex_db =
              (Inr r, ex_db\<lparr>detection_rules_id_seq := detection_rules_id_seq ex_db + 1,
                             detection_rules := detection_rules ex_db @ [r]\<rparr>)
           \<and> Some (rule_type r) = Some ''location''
           \<and> Some (r_conditions r) = Some no_conditions
           \<and> is_active r"
    by (simp add: req)
  from auth tys valid valid' bad rej fresh usr acc show ?thesis by blast
qed

text \<open>A Location rule with no blocked-country set is accepted, stored and active.\<close>

theorem location_rule_without_countries_counterexample:
  "blockedCountries no_conditions = None
   \<and> fst (create_rule (Some ex_admin) ex_location_request ex_db) =
       Inr \<lparr> r_id = 3, r_name = ''High Risk Country Transfer'', r_description = None,
             rule_type = ''location'', r_conditions = no_conditions, r_severity = ''high'',
             is_active = True, r_created_by = 1 \<rparr>
   \<and> map r_name (detection_rules (snd (create_rule (Some ex_admin) ex_location_request ex_db))) =
       [''Large Cash Transaction'', ''Two in a day'', ''High Risk Country Transfer'']"
  by (simp add: create_rule_def ruleSchema_def conditions_schema_def handler_defs Let_def ex_defs)

section \<open>Testing rules\<close>

lemma test_rule_runs:
  assumes auth: "authorize [''supervisor'', ''admin''] u = None"
      and found: "filter (\<lambda>r. r_id r = ruleId) (detection_rules d) = r # others"
      and sel: "select_test_query r rq (transactions d) = Some rows"
      and lim: "0 \<le> (case limit rq of None \<Rightarrow> 100 | Some n \<Rightarrow> n)"
  shows "test_rule tie u (Some ruleId) rq d =
           (Inr \<lparr> tr_rule = (r_id r, r_name r, rule_type r),
                  testPeriod = (startDate rq, endDate rq),
                  matches = take (nat (case limit rq of None \<Rightarrow> 100 | Some n \<Rightarrow> n))
                              (order_by tie rows),
                  matchCount = length (take (nat (case limit rq of None \<Rightarrow> 100 | Some n \<Rightarrow> n))
                              (order_by tie rows)) \<rparr>, d)"
  using auth found sel lim
  by (simp add: test_rule_def order_limit_def)

lemma test_rule_readonly: "snd (test_rule tie u rid rq d) = d"
  by (simp add: test_rule_def split: option.splits list.splits sum.splits)

lemma supported_selects:
  assumes "rule_type r \<in> set [''amount'', ''frequency'', ''pattern'', ''location'']"
  shows "\<exists>rows. select_test_query r rq ts = Some rows \<and>
                (\<forall>m \<in> set rows. fst m \<in> set ts \<and> in_period (startDate rq) (endDate rq) (fst m))"
proof -
  have a: "\<forall>m \<in> set (amount_query (r_conditions r) rq ts).
             fst m \<in> set ts \<and> in_period (startDate rq) (endDate rq) (fst m)"
    by (auto simp add: amount_query_def)
  have p: "\<forall>m \<in> set (pattern_query (r_conditions r) rq ts).
             fst m \<in> set ts \<and> in_period (startDate rq) (endDate rq) (fst m)"
    by (auto simp add: pattern_query_def)
  have l: "\<forall>m \<in> set (location_query (r_conditions r) rq ts).
             fst m \<in> set ts \<and> in_period (startDate rq) (endDate rq) (fst m)"
    by (auto simp add: location_query_def)
  have f: "\<forall>m \<in> set (frequency_query (r_conditions r) rq ts).
             fst m \<in> set ts \<and> in_period (startDate rq) (endDate rq) (fst m)"
    by (auto simp add: frequency_query_def Let_def)
  from assms a p l f show ?thesis
    by (auto simp add: select_test_query_def)
qed

lemma sorted_desc_sort_key:
  "sorted_wrt (\<lambda>a b. processed_at (fst b) \<le> processed_at (fst a))
     (order_by tie rows)"
proof -
  have "sorted (map (\<lambda>(t, reason). (- processed_at t, tie t)) (order_by tie rows))"
    unfolding order_by_def by (rule sorted_sort_key)
  then have "sorted_wrt (\<lambda>a b. (- processed_at (fst a), tie (fst a)) \<le>
                             (- processed_at (fst b), tie (fst b))) (order_by tie rows)"
    by (simp add: sorted_map case_prod_beta)
  then show ?thesis
    by (rule sorted_wrt_mono_rel [rotated]) auto
qed

lemma order_by_simps [simp]:
  "set (order_by tie rows) = set rows"
  "length (order_by tie rows) = length rows"
  "order_by tie [] = []"
  by (simp_all add: order_by_def)

text \<open>
  The ranking covers every order the statement admits: for rows of distinct transactions,
  every arrangement of the rows by descending \<open>processed_at\<close> is the order some
  ranking gives.
\<close>

lemma order_by_complete:
  assumes dist: "distinct (map fst rows)"
      and distL0: "distinct (map fst L)"
      and perm: "set L = set rows"
      and desc: "sorted_wrt (\<lambda>a b. processed_at (fst b) \<le> processed_at (fst a)) L"
  shows "\<exists>tie. order_by tie rows = L"
proof -
  let ?ts = "map fst L"
  have len: "length ?ts = length L" by simp
  have dL: "distinct ?ts"
    by (rule distL0)
  define tie where "tie t = int (the_inv_into {..<length L} (\<lambda>i. ?ts ! i) t)" for t
  have inj: "inj_on (\<lambda>i. ?ts ! i) {..<length L}"
  proof (rule inj_onI)
    fix i j assume "i \<in> {..<length L}" "j \<in> {..<length L}" "?ts ! i = ?ts ! j"
    then show "i = j"
      using dL nth_eq_iff_index_eq [of ?ts i j] by simp
  qed
  have tie_nth: "tie (fst (L ! i)) = int i" if "i < length L" for i
  proof -
    have "the_inv_into {..<length L} (\<lambda>i. ?ts ! i) (?ts ! i) = i"
      using inj that by (intro the_inv_into_f_f) simp_all
    with that show ?thesis by (simp add: tie_def)
  qed
  let ?key = "\<lambda>(t, reason). (- processed_at t, tie t)"
  have keyL: "?key (L ! i) = (- processed_at (fst (L ! i)), int i)" if "i < length L" for i
    using tie_nth [OF that] by (simp add: case_prod_beta)
  have "\<forall>i j. i < j \<longrightarrow> j < length L \<longrightarrow> ?key (L ! i) \<le> ?key (L ! j)"
  proof (intro allI impI)
    fix i j assume ij: "i < j" and j: "j < length L"
    then have i: "i < length L" by simp
    from desc ij j have "processed_at (fst (L ! j)) \<le> processed_at (fst (L ! i))"
      by (simp add: sorted_wrt_iff_nth_less)
    with ij have "(- processed_at (fst (L ! i)), int i) \<le> (- processed_at (fst (L ! j)), int j)"
      by simp
    then show "?key (L ! i) \<le> ?key (L ! j)"
      by (simp only: keyL [OF i] keyL [OF j])
  qed
  then have "sorted_wrt (\<lambda>a b. ?key a \<le> ?key b) L"
    by (simp only: sorted_wrt_iff_nth_less)
  then have sortedL: "sorted (map ?key L)"
    by (simp only: sorted_map)
  have distL: "distinct (map ?key L)"
    unfolding distinct_conv_nth
  proof (intro allI impI)
    fix i j assume "i < length (map ?key L)" "j < length (map ?key L)" "i \<noteq> j"
    then have i: "i < length L" and j: "j < length L" and ne: "i \<noteq> j" by simp_all
    show "map ?key L ! i \<noteq> map ?key L ! j"
      using ne by (simp add: i j keyL)
  qed
  have setL: "set L = set rows"
    by (rule perm)
  have injL: "inj_on ?key (set L)"
    using distL by (simp add: distinct_map)
  have "distinct rows"
    using dist by (simp add: distinct_map)
  then have distS: "distinct (map ?key (order_by tie rows))"
    using injL setL by (simp add: distinct_map order_by_def)
  have sortedS: "sorted (map ?key (order_by tie rows))"
    unfolding order_by_def by (rule sorted_sort_key)
  have injk: "inj_on ?key (set (order_by tie rows) \<union> set L)"
    using injL setL by simp
  have "order_by tie rows = L"
    by (rule map_sorted_distinct_set_unique [OF injk sortedS distS sortedL distL]) (simp add: setL)
  then show ?thesis by blast
qed

lemma sorted_wrt_take_desc:
  "sorted_wrt P xs \<Longrightarrow> sorted_wrt P (take n xs)"
  by (metis append_take_drop_id sorted_wrt_append)

lemmas query_defs = test_rule_def select_test_query_def order_limit_def order_by_def amount_query_def
  frequency_query_def frequent_accounts_def frequency_threshold_def pattern_query_def
  location_query_def in_period_def truthy_num_def truthy_str_def truthy_bool_def
  nonempty_array_def sql_eq_def sql_any_def

text \<open>
  Claim C8. For a supervisor or admin, an existing rule of a supported type and a limit
  \<open>n\<close>, whatever order the executor gives to rows of equal \<open>processed_at\<close>: the
  database after the test is the database before it, so no alert is created;
  the test answers with a result whenever \<open>n\<close> is not negative; and every result holds
  at most \<open>n\<close> matches, ordered most recent first by \<open>processed_at\<close>, each a stored
  transaction processed within the requested period, with \<open>matchCount\<close> their number.
\<close>

theorem test_rule_limited_sorted_readonly:
  assumes auth: "authorize [''supervisor'', ''admin''] u = None"
      and found: "filter (\<lambda>r. r_id r = ruleId) (detection_rules d) = r # others"
      and supported: "rule_type r \<in> set [''amount'', ''frequency'', ''pattern'', ''location'']"
      and lim: "limit rq = Some n"
  shows "snd (test_rule tie u (Some ruleId) rq d) = d
       \<and> (0 \<le> n \<longrightarrow> \<not> isl (fst (test_rule tie u (Some ruleId) rq d)))
       \<and> (fst (test_rule tie u (Some ruleId) rq d) = Inr res \<longrightarrow>
            int (length (matches res)) \<le> n
          \<and> matchCount res = length (matches res)
          \<and> sorted_wrt (\<lambda>a b. processed_at (fst b) \<le> processed_at (fst a)) (matches res)
          \<and> (\<forall>m \<in> set (matches res). fst m \<in> set (transactions d) \<and>
                                       in_period (startDate rq) (endDate rq) (fst m)))"
proof -
  from supported_selects [OF supported, of rq "transactions d"]
  obtain rows where sel: "select_test_query r rq (transactions d) = Some rows"
    and inp: "\<forall>m \<in> set rows. fst m \<in> set (transactions d) \<and>
                              in_period (startDate rq) (endDate rq) (fst m)"
    by blast
  let ?ms = "take (nat n) (order_by tie rows)"
  have neg: "n < 0 \<Longrightarrow> isl (fst (test_rule tie u (Some ruleId) rq d))"
    using auth found sel lim by (simp add: test_rule_def order_limit_def)
  have run: "0 \<le> n \<Longrightarrow> fst (test_rule tie u (Some ruleId) rq d) =
           Inr \<lparr> tr_rule = (r_id r, r_name r, rule_type r),
                 testPeriod = (startDate rq, endDate rq),
                 matches = ?ms, matchCount = length ?ms \<rparr>"
    using test_rule_runs [OF auth found sel] lim by simp
  have srt: "sorted_wrt (\<lambda>a b. processed_at (fst b) \<le> processed_at (fst a)) ?ms"
    by (rule sorted_wrt_take_desc [OF sorted_desc_sort_key])
  have "set ?ms \<subseteq> set rows"
    using set_take_subset [of "nat n" "order_by tie rows"] by simp
  with inp have mem: "\<forall>m \<in> set ?ms. fst m \<in> set (transactions d) \<and>
                                    in_period (startDate rq) (endDate rq) (fst m)"
    by blast
  have result: "fst (test_rule tie u (Some ruleId) rq d) = Inr res \<longrightarrow>
            int (length (matches res)) \<le> n
          \<and> matchCount res = length (matches res)
          \<and> sorted_wrt (\<lambda>a b. processed_at (fst b) \<le> processed_at (fst a)) (matches res)
          \<and> (\<forall>m \<in> set (matches res). fst m \<in> set (transactions d) \<and>
                                       in_period (startDate rq) (endDate rq) (fst m))"
  proof (cases "0 \<le> n")
    case True
    show ?thesis
    proof
      assume "fst (test_rule tie u (Some ruleId) rq d) = Inr res"
      with run [OF True] have res: "res = \<lparr> tr_rule = (r_id r, r_name r, rule_type r),
                 testPeriod = (startDate rq, endDate rq),
                 matches = ?ms, matchCount = length ?ms \<rparr>"
        by simp
      have "int (length ?ms) \<le> n"
        using True by simp
      with srt mem show "int (length (matches res)) \<le> n
          \<and> matchCount res = length (matches res)
          \<and> sorted_wrt (\<lambda>a b. processed_at (fst b) \<le> processed_at (fst a)) (matches res)
          \<and> (\<forall>m \<in> set (matches res). fst m \<in> set (transactions d) \<and>
                                       in_period (startDate rq) (endDate rq) (fst m))"
        unfolding res by simp
    qed
  next
    case False
    then have "isl (fst (test_rule tie u (Some ruleId) rq d))"
      using neg by simp
    then show ?thesis
      by auto
  qed
  have ok: "0 \<le> n \<longrightarrow> \<not> isl (fst (test_rule tie u (Some ruleId) rq d))"
    using run by simp
  from test_rule_readonly ok result show ?thesis
    by blast
qed

text \<open>The theorem at the amount rule of the example database with limit 1.\<close>

theorem test_rule_limited_sorted_readonly_witness:
  "authorize [''supervisor'', ''admin''] (Some ex_admin) = None
   \<and> filter (\<lambda>r. r_id r = 1) (detection_rules ex_db) = ex_rule1 # []
   \<and> rule_type ex_rule1 \<in> set [''amount'', ''frequency'', ''pattern'', ''location'']
   \<and> limit (ex_period\<lparr>limit := Some 1\<rparr>) = Some 1 \<and> (0::int) \<le> 1
   \<and> fst (test_rule t_id (Some ex_admin) (Some 1) (ex_period\<lparr>limit := Some 1\<rparr>) ex_db) =
       Inr \<lparr> tr_rule = (1, ''Large Cash Transaction'', ''amount''),
             testPeriod = (Some 0, Some 100000),
             matches = [(ex_tx3, ''Amount threshold exceeded'')], matchCount = 1 \<rparr>
   \<and> snd (test_rule t_id (Some ex_admin) (Some 1) (ex_period\<lparr>limit := Some 1\<rparr>) ex_db) = ex_db
   \<and> \<not> isl (fst (test_rule t_id (Some ex_admin) (Some 1) (ex_period\<lparr>limit := Some 1\<rparr>) ex_db))
   \<and> int (length [(ex_tx3, ''Amount threshold exceeded'')]) \<le> 1
   \<and> sorted_wrt (\<lambda>a b. processed_at (fst b) \<le> processed_at (fst a))
        [(ex_tx3, ''Amount threshold exceeded'')]
   \<and> ex_tx3 \<in> set (transactions ex_db)
   \<and> in_period (Some 0) (Some 100000) ex_tx3"
proof -
  have auth: "authorize [''supervisor'', ''admin''] (Some ex_admin) = None"
    by (rule ex_admin_authorized)
  have found: "filter (\<lambda>r. r_id r = 1) (detection_rules ex_db) = ex_rule1 # []"
    by (simp add: ex_db_def ex_rule1_def ex_rule2_def)
  have supported: "rule_type ex_rule1 \<in> set [''amount'', ''frequency'', ''pattern'', ''location'']"
    by (simp add: ex_rule1_def)
  have lim: "limit (ex_period\<lparr>limit := Some 1\<rparr>) = Some 1"
    by simp
  have nonneg: "(0::int) \<le> 1"
    by simp
  have run: "fst (test_rule t_id (Some ex_admin) (Some 1) (ex_period\<lparr>limit := Some 1\<rparr>) ex_db) =
       Inr \<lparr> tr_rule = (1, ''Large Cash Transaction'', ''amount''),
             testPeriod = (Some 0, Some 100000),
             matches = [(ex_tx3, ''Amount threshold exceeded'')], matchCount = 1 \<rparr>"
    by (simp add: query_defs authorize_def ex_defs)
  have sel: "startDate (ex_period\<lparr>limit := Some 1\<rparr>) = Some 0"
    "endDate (ex_period\<lparr>limit := Some 1\<rparr>) = Some 100000"
    by (simp_all add: ex_period_def)
  from test_rule_limited_sorted_readonly [OF auth found supported lim,
         where res = "\<lparr> tr_rule = (1, ''Large Cash Transaction'', ''amount''),
             testPeriod = (Some 0, Some 100000),
             matches = [(ex_tx3, ''Amount threshold exceeded'')], matchCount = 1 \<rparr>"]
       run nonneg sel
  have "snd (test_rule t_id (Some ex_admin) (Some 1) (ex_period\<lparr>limit := Some 1\<rparr>) ex_db) = ex_db
   \<and> \<not> isl (fst (test_rule t_id (Some ex_admin) (Some 1) (ex_period\<lparr>limit := Some 1\<rparr>) ex_db))
   \<and> int (length [(ex_tx3, ''Amount threshold exceeded'')]) \<le> 1
   \<and> sorted_wrt (\<lambda>a b. processed_at (fst b) \<le> processed_at (fst a))
        [(ex_tx3, ''Amount threshold exceeded'')]
   \<and> ex_tx3 \<in> set (transactions ex_db)
   \<and> in_period (Some 0) (Some 100000) ex_tx3"
    by simp
  with auth found supported lim nonneg run show ?thesis by blast
qed

text \<open>
  Claim C9, as the handler has it. When \<open>endDate\<close> lies before \<open>startDate\<close>, the test
  of an existing rule of a supported type with a non-negative limit is answered with a
  normal result that has no matches and \<open>matchCount = 0\<close>; the date range is not
  validated.
\<close>

theorem test_rule_reversed_period_empty:
  assumes auth: "authorize [''supervisor'', ''admin''] u = None"
      and found: "filter (\<lambda>r. r_id r = ruleId) (detection_rules d) = r # others"
      and supported: "rule_type r \<in> set [''amount'', ''frequency'', ''pattern'', ''location'']"
      and s: "startDate rq = Some s" and e: "endDate rq = Some e" and rev: "e < s"
      and lim: "0 \<le> (case limit rq of None \<Rightarrow> 100 | Some n \<Rightarrow> n)"
  shows "test_rule tie u (Some ruleId) rq d =
           (Inr \<lparr> tr_rule = (r_id r, r_name r, rule_type r),
                  testPeriod = (Some s, Some e),
                  matches = [],
                  matchCount = 0 \<rparr>, d)"
proof -
  from supported_selects [OF supported, of rq "transactions d"]
  obtain rows where sel: "select_test_query r rq (transactions d) = Some rows"
    and inp: "\<forall>m \<in> set rows. fst m \<in> set (transactions d) \<and>
                              in_period (startDate rq) (endDate rq) (fst m)"
    by blast
  have outside: "\<not> in_period (startDate rq) (endDate rq) t" for t
    using s e rev by (simp add: in_period_def)
  have "rows = []"
  proof (cases rows)
    case Nil
    then show ?thesis .
  next
    case (Cons m ms)
    then have "m \<in> set rows"
      by simp
    with inp have "in_period (startDate rq) (endDate rq) (fst m)"
      by blast
    with outside show ?thesis
      by blast
  qed
  with test_rule_runs [OF auth found sel lim] s e show ?thesis
    by simp
qed

text \<open>The theorem at the frequency rule of the example database.\<close>

theorem test_rule_reversed_period_empty_witness:
  "authorize [''supervisor'', ''admin''] (Some ex_admin) = None
   \<and> filter (\<lambda>r. r_id r = 2) (detection_rules ex_db) = ex_rule2 # []
   \<and> rule_type ex_rule2 \<in> set [''amount'', ''frequency'', ''pattern'', ''location'']
   \<and> startDate ex_reversed_period = Some 100000 \<and> endDate ex_reversed_period = Some 0
   \<and> (0::int) < 100000
   \<and> 0 \<le> (case limit ex_reversed_period of None \<Rightarrow> 100 | Some n \<Rightarrow> n)
   \<and> test_rule t_id (Some ex_admin) (Some 2) ex_reversed_period ex_db =
       (Inr \<lparr> tr_rule = (r_id ex_rule2, r_name ex_rule2, rule_type ex_rule2),
              testPeriod = (Some 100000, Some 0), matches = [], matchCount = 0 \<rparr>, ex_db)"
proof -
  have auth: "authorize [''supervisor'', ''admin''] (Some ex_admin) = None"
    by (rule ex_admin_authorized)
  have found: "filter (\<lambda>r. r_id r = 2) (detection_rules ex_db) = ex_rule2 # []"
    by (simp add: ex_db_def ex_rule1_def ex_rule2_def)
  have supported: "rule_type ex_rule2 \<in> set [''amount'', ''frequency'', ''pattern'', ''location'']"
    by (simp add: ex_rule2_def)
  have s: "startDate ex_reversed_period = Some 100000"
    and e: "endDate ex_reversed_period = Some 0"
    and lim: "0 \<le> (case limit ex_reversed_period of None \<Rightarrow> 100 | Some n \<Rightarrow> n)"
    by (simp_all add: ex_reversed_period_def)
  have rev: "(0::int) < 100000"
    by simp
  from test_rule_reversed_period_empty [OF auth found supported s e rev lim]
       auth found supported s e rev lim
  show ?thesis by blast
qed

text \<open>A reversed period on the amount rule: the answer is a result, not an error.\<close>

theorem reversed_period_no_error_counterexample:
  "endDate ex_reversed_period = Some 0 \<and> startDate ex_reversed_period = Some 100000
   \<and> test_rule t_id (Some ex_admin) (Some 1) ex_reversed_period ex_db =
       (Inr \<lparr> tr_rule = (1, ''Large Cash Transaction'', ''amount''),
              testPeriod = (Some 100000, Some 0), matches = [], matchCount = 0 \<rparr>, ex_db)"
  by (simp add: query_defs authorize_def ex_reversed_period_def ex_defs)

section \<open>Testing amount rules\<close>

text \<open>
  Claim C6, at the failing input. The rule is the code's own template and seed rule
  \<open>Large Cash Transaction\<close>, described there as detecting cash transactions over NZD
  10,000: \<open>minAmount = 10000\<close>, currency NZD, transaction types deposit and withdrawal.
  The predicate of the specification excludes the transfer of 15000 NZD, whose type is
  not in the rule's \<open>transactionTypes\<close>; the test returns it as a match, for every order
  the executor may choose.
\<close>

theorem amount_test_ignores_transaction_types:
  "transactionTypes (r_conditions ex_rule1) = Some [''deposit'', ''withdrawal'']
   \<and> transaction_type ex_tx3 = ''transfer''
   \<and> \<not> spec_amount_match (r_conditions ex_rule1) ex_tx3
   \<and> spec_amount_match (r_conditions ex_rule1) ex_tx1
   \<and> fst (test_rule tie (Some ex_admin) (Some 1) ex_period ex_db) =
       Inr \<lparr> tr_rule = (1, ''Large Cash Transaction'', ''amount''),
             testPeriod = (Some 0, Some 100000),
             matches = [(ex_tx3, ''Amount threshold exceeded''),
                        (ex_tx1, ''Amount threshold exceeded'')],
             matchCount = 2 \<rparr>"
  by (simp add: query_defs authorize_def spec_amount_match_def ex_defs)

section \<open>Testing frequency rules\<close>

text \<open>
  Claim C7, at the failing input. The rule asks for two transactions of one source
  account within 24 hours. Two transactions of account 7 lie 25 hours apart, so the
  trailing window of either holds one transaction and the predicate of the specification
  matches neither; the test counts both within the requested period and returns both,
  for every order the executor may choose.
\<close>

theorem frequency_test_ignores_window:
  "timeWindow (r_conditions ex_rule2) = Some ''24h''
   \<and> transactionCount (r_conditions ex_rule2) = Some 2
   \<and> processed_at ex_tx2 - processed_at ex_tx1 = 25 * 3600
   \<and> spec_frequency_count (r_conditions ex_rule2) (processed_at ex_tx2) (transactions ex_db) ex_tx2 = 1
   \<and> \<not> spec_frequency_match (r_conditions ex_rule2) (processed_at ex_tx2) (transactions ex_db) ex_tx2
   \<and> \<not> spec_frequency_match (r_conditions ex_rule2) (processed_at ex_tx1) (transactions ex_db) ex_tx1
   \<and> fst (test_rule tie (Some ex_admin) (Some 2) ex_period ex_db) =
       Inr \<lparr> tr_rule = (2, ''Two in a day'', ''frequency''),
             testPeriod = (Some 0, Some 100000),
             matches = [(ex_tx2, ''High frequency transactions''),
                        (ex_tx1, ''High frequency transactions'')],
             matchCount = 2 \<rparr>"
  by (simp add: query_defs authorize_def spec_frequency_match_def spec_frequency_count_def
        window_seconds_def ex_defs)

end
